theory Spec2Isabelle
  imports Main
begin

section \<open>JavaScript values, as far as the transformers look at them\<close>

text \<open>
  The payload of an agent event is declared \<^verbatim>\<open>Record<string, unknown>\<close>. A property that is
  missing reads as \<^verbatim>\<open>undefined\<close>; it is \<open>None\<close> here, and \<open>Some v\<close> is a property holding
  the value \<open>v\<close>. Numbers are the integers (timestamps are epoch milliseconds, sequence
  numbers are counters).
\<close>

datatype jsval =
    JNull
  | JBool bool
  | JNum int
  | JStr string
  | JObj "(string \<times> jsval) list"

text \<open>Truthiness, which \<^verbatim>\<open>a || b\<close> and \<^verbatim>\<open>c ? x : y\<close> test.\<close>

fun truthy :: "jsval option \<Rightarrow> bool" where
  "truthy None = False"
| "truthy (Some JNull) = False"
| "truthy (Some (JBool b)) = b"
| "truthy (Some (JNum n)) = (n \<noteq> 0)"
| "truthy (Some (JStr s)) = (s \<noteq> [])"
| "truthy (Some (JObj kvs)) = True"

text \<open>\<^verbatim>\<open>v || d\<close> for a value of unknown type and a default.\<close>

fun val_or :: "jsval option \<Rightarrow> jsval \<Rightarrow> jsval" where
  "val_or None d = d"
| "val_or (Some v) d = (if truthy (Some v) then v else d)"

text \<open>\<^verbatim>\<open>s || d\<close> for \<^verbatim>\<open>s: string | undefined\<close>: the empty string is falsy.\<close>

fun str_or :: "string option \<Rightarrow> string \<Rightarrow> string" where
  "str_or None d = d"
| "str_or (Some s) d = (if s = [] then d else s)"

subsection \<open>Numbers inside template literals\<close>

text \<open>
  \<^verbatim>\<open>`${n}`\<close> for an integer \<open>n\<close>: its decimal digits, with a minus sign when negative (what
  JavaScript prints for every integer below \<open>10\<^sup>2\<^sup>1\<close> in magnitude). \<open>digit_char\<close> is only
  applied to numbers below ten.
\<close>

definition digit_char :: "nat \<Rightarrow> char" where
  "digit_char d = ''0123456789'' ! d"

function decimal_of_nat :: "nat \<Rightarrow> string" where
  "decimal_of_nat n =
     (if n < 10 then [digit_char n]
      else decimal_of_nat (n div 10) @ [digit_char (n mod 10)])"
  by pat_completeness auto
termination
  by (relation "measure (\<lambda>n. n)") auto

declare decimal_of_nat.simps [simp del]

definition number_to_string :: "int \<Rightarrow> string" where
  "number_to_string i =
     (if i < 0 then CHR ''-'' # decimal_of_nat (nat (- i)) else decimal_of_nat (nat i))"

section \<open>Source events\<close>

text \<open>
  Modelled from the spec: the type \<^verbatim>\<open>AgentEventPayload\<close> of \<^verbatim>\<open>./agent-events.js\<close>, which the
  sources import and do not contain. The spec describes a source event as tagged by a
  stream, "carrying a phase or equivalent sub-tag, a monotonically increasing sequence
  number, a timestamp, a session identifier (derived from a session key or a run id) and a
  free-form payload mapping". The fields are the ones the transformers read: \<^verbatim>\<open>runId\<close>,
  \<^verbatim>\<open>seq\<close>, \<^verbatim>\<open>stream\<close>, \<^verbatim>\<open>ts\<close>, \<^verbatim>\<open>sessionKey\<close> (optional) and seven properties of \<^verbatim>\<open>data\<close>,
  each at the type the source asserts for it with \<^verbatim>\<open>as\<close>: \<^verbatim>\<open>phase as string\<close>,
  \<^verbatim>\<open>toolName as string\<close>, \<^verbatim>\<open>toolUseId as string\<close>, \<^verbatim>\<open>error as string | undefined\<close>,
  \<^verbatim>\<open>assistantText as string | undefined\<close>; \<^verbatim>\<open>params\<close> and \<^verbatim>\<open>result\<close> stay of unknown type.
  Each of the seven may be missing (\<open>None\<close>). The stream is any string, so that an event
  of a stream the transformers do not know can be written down.
\<close>

record EventData =
  phase :: "string option"
  toolName :: "string option"
  toolUseId :: "string option"
  params :: "jsval option"
  result :: "jsval option"
  error :: "string option"
  assistantText :: "string option"

record AgentEventPayload =
  runId :: string
  seq :: int
  stream :: string
  ts :: int
  data :: EventData
  sessionKey :: "string option"

section \<open>Destination events\<close>

record BaseVibecraftEvent =
  id' :: string
  timestamp :: int
  sessionId :: string
  cwd' :: string

datatype VibecraftEvent =
    PreToolUseEvent (base: BaseVibecraftEvent) (tool: "string option") (toolInput: jsval)
      (toolUseId': string) (assistantText': "string option")
  | PostToolUseEvent (base: BaseVibecraftEvent) (tool: "string option") (toolInput: jsval)
      (toolResponse: jsval) (toolUseId': string) (success: bool) (duration: "int option")
  | StopEvent (base: BaseVibecraftEvent) (stopHookActive: bool) (response: "jsval option")
  | SessionStartEvent (base: BaseVibecraftEvent) (source: string)
  | SessionEndEvent (base: BaseVibecraftEvent) (reason: string)
  | UserPromptSubmitEvent (base: BaseVibecraftEvent) (prompt: string)
  | NotificationEvent (base: BaseVibecraftEvent) (message: string) (notificationType: string)

text \<open>The \<^verbatim>\<open>type\<close> property of each variant.\<close>

fun type' :: "VibecraftEvent \<Rightarrow> string" where
  "type' (PreToolUseEvent b t i u a) = ''pre_tool_use''"
| "type' (PostToolUseEvent b t i r u s d) = ''post_tool_use''"
| "type' (StopEvent b h r) = ''stop''"
| "type' (SessionStartEvent b s) = ''session_start''"
| "type' (SessionEndEvent b r) = ''session_end''"
| "type' (UserPromptSubmitEvent b p) = ''user_prompt_submit''"
| "type' (NotificationEvent b m k) = ''notification''"

section \<open>Configuration\<close>

text \<open>
  \<^verbatim>\<open>Required<VibecraftIntegrationOptions>\<close> of \<^verbatim>\<open>vibecraft-integration.ts\<close>, and
  \<^verbatim>\<open>Required<VibecraftAdapterConfig>\<close> of the adapter, which has the same four options
  and \<^verbatim>\<open>eventsFilePath\<close>.
\<close>

record VibecraftIntegrationOptions =
  enabled :: bool
  serverUrl :: string
  debug :: bool
  cwd :: string

record VibecraftAdapterConfig = VibecraftIntegrationOptions +
  eventsFilePath :: string

section \<open>Event ids\<close>

text \<open>
  \<^verbatim>\<open>generateEventId\<close> reads the clock and the random generator; what they returned during
  one call of a transformer is a \<open>CallEnv\<close>: \<open>now\<close> is \<^verbatim>\<open>Date.now()\<close>, \<open>random36\<close> is
  \<^verbatim>\<open>Math.random().toString(36).slice(2, 9)\<close>.
\<close>

record CallEnv =
  now :: int
  random36 :: string

definition generateEventId :: "CallEnv \<Rightarrow> string \<Rightarrow> string" where
  "generateEventId env sid = sid @ ''-'' @ number_to_string (now env) @ ''-'' @ random36 env"

section \<open>The transformers\<close>

type_synonym start_times = "string \<rightharpoonup> int"

text \<open>
  \<^verbatim>\<open>startTime ? evt.ts - startTime : undefined\<close>, with \<open>None\<close> for \<^verbatim>\<open>undefined\<close>: the test is
  for truthiness, and the number zero is falsy.
\<close>

fun duration_since :: "int option \<Rightarrow> int \<Rightarrow> int option" where
  "duration_since None t = None"
| "duration_since (Some startTime) t = (if startTime \<noteq> 0 then Some (t - startTime) else None)"

text \<open>
  \<^verbatim>\<open>transformAgentEvent\<close> of the adapter. It reads \<^verbatim>\<open>config.cwd\<close> and reads and writes the
  module's \<^verbatim>\<open>toolUseStartTime\<close> map, which is passed in and returned. The \<^verbatim>\<open>switch\<close> on the
  stream has a \<^verbatim>\<open>break\<close> after the lifecycle, tool and assistant cases, which leads to
  the final \<^verbatim>\<open>return null\<close>.
\<close>

definition transformAgentEvent ::
  "'a VibecraftIntegrationOptions_scheme \<Rightarrow> CallEnv \<Rightarrow> start_times \<Rightarrow> AgentEventPayload
     \<Rightarrow> VibecraftEvent option \<times> start_times" where
  "transformAgentEvent config env toolUseStartTime evt =
     (let sid = str_or (sessionKey evt) (runId evt);
          baseEvent = \<lparr>id' = generateEventId env sid, timestamp = ts evt,
                       sessionId = sid, cwd' = cwd config\<rparr>
      in
        if stream evt = ''lifecycle'' then
          (if phase (data evt) = Some ''start'' then
             (Some (SessionStartEvent baseEvent ''startup''), toolUseStartTime)
           else if phase (data evt) = Some ''end'' then
             (Some (StopEvent baseEvent False (result (data evt))), toolUseStartTime)
           else (None, toolUseStartTime))
        else if stream evt = ''tool'' then
          (if phase (data evt) = Some ''pre'' then
             (let tid = str_or (toolUseId (data evt)) (sid @ ''-'' @ number_to_string (seq evt))
              in (Some (PreToolUseEvent baseEvent (toolName (data evt))
                          (val_or (params (data evt)) (JObj [])) tid
                          (assistantText (data evt))),
                  toolUseStartTime(tid \<mapsto> ts evt)))
           else if phase (data evt) = Some ''post'' then
             (let tid = str_or (toolUseId (data evt)) (sid @ ''-'' @ number_to_string (seq evt));
                  startTime = toolUseStartTime tid;
                  dur = duration_since startTime (ts evt)
              in (Some (PostToolUseEvent baseEvent (toolName (data evt))
                          (val_or (params (data evt)) (JObj []))
                          (val_or (result (data evt)) (JObj [])) tid
                          (error (data evt) = None) dur),
                  toolUseStartTime))
           else (None, toolUseStartTime))
        else if stream evt = ''assistant'' then (None, toolUseStartTime)
        else if stream evt = ''error'' then
          (Some (NotificationEvent baseEvent (str_or (error (data evt)) ''Unknown error'')
                   ''error''),
           toolUseStartTime)
        else (None, toolUseStartTime))"

text \<open>
  \<^verbatim>\<open>transformEvent\<close> of \<^verbatim>\<open>vibecraft-integration.ts\<close>: a sequence of \<^verbatim>\<open>if\<close> blocks, each of
  which either returns or falls through to the next (\<open>None\<close> of the outer option is falling
  through); the tool name and id are computed before the phase is looked at; the fallback
  message is four Chinese characters (twelve bytes of UTF-8).
\<close>

definition unknown_error_message :: string where
  "unknown_error_message =
     [char_of (0xE6::nat), char_of (0x9C::nat), char_of (0xAA::nat),
      char_of (0xE7::nat), char_of (0x9F::nat), char_of (0xA5::nat),
      char_of (0xE9::nat), char_of (0x94::nat), char_of (0x99::nat),
      char_of (0xE8::nat), char_of (0xAF::nat), char_of (0xAF::nat)]"

definition transformEvent ::
  "'a VibecraftIntegrationOptions_scheme \<Rightarrow> CallEnv \<Rightarrow> start_times \<Rightarrow> AgentEventPayload
     \<Rightarrow> VibecraftEvent option \<times> start_times" where
  "transformEvent options env toolStartTimes evt =
     (let sid = str_or (sessionKey evt) (runId evt);
          baseEvent = \<lparr>id' = generateEventId env sid, timestamp = ts evt,
                       sessionId = sid, cwd' = cwd options\<rparr>;
          lifecycleBlock =
            (if stream evt = ''lifecycle'' then
               (if phase (data evt) = Some ''start'' then
                  Some (Some (SessionStartEvent baseEvent ''startup''), toolStartTimes)
                else if phase (data evt) = Some ''end'' then
                  Some (Some (StopEvent baseEvent False (result (data evt))), toolStartTimes)
                else None)
             else None);
          toolBlock =
            (if stream evt = ''tool'' then
               (let tname = toolName (data evt);
                    tid = str_or (toolUseId (data evt))
                            (sid @ ''-'' @ number_to_string (seq evt))
                in
                  if phase (data evt) = Some ''pre'' then
                    Some (Some (PreToolUseEvent baseEvent tname
                                  (val_or (params (data evt)) (JObj [])) tid
                                  (assistantText (data evt))),
                          toolStartTimes(tid \<mapsto> ts evt))
                  else if phase (data evt) = Some ''post'' then
                    (let startTime = toolStartTimes tid;
                         dur = duration_since startTime (ts evt)
                     in Some (Some (PostToolUseEvent baseEvent tname
                                      (val_or (params (data evt)) (JObj []))
                                      (val_or (result (data evt)) (JObj [])) tid
                                      (error (data evt) = None) dur),
                              toolStartTimes))
                  else None)
             else None)
      in
        case lifecycleBlock of
          Some r \<Rightarrow> r
        | None \<Rightarrow>
            (case toolBlock of
               Some r \<Rightarrow> r
             | None \<Rightarrow>
                 if stream evt = ''error'' then
                   (Some (NotificationEvent baseEvent
                            (str_or (error (data evt)) unknown_error_message) ''error''),
                    toolStartTimes)
                 else (None, toolStartTimes)))"

text \<open>
  The tool-invocation id both transformers compute for a tool event:
  \<^verbatim>\<open>evt.data.toolUseId as string || `${sessionId}-${evt.seq}`\<close>.
\<close>

definition effectiveToolUseId :: "AgentEventPayload \<Rightarrow> string" where
  "effectiveToolUseId evt =
     str_or (toolUseId (data evt))
       (str_or (sessionKey evt) (runId evt) @ ''-'' @ number_to_string (seq evt))"

definition isToolPre :: "AgentEventPayload \<Rightarrow> bool" where
  "isToolPre evt = (stream evt = ''tool'' \<and> phase (data evt) = Some ''pre'')"

definition isToolPost :: "AgentEventPayload \<Rightarrow> bool" where
  "isToolPost evt = (stream evt = ''tool'' \<and> phase (data evt) = Some ''post'')"

text \<open>
  The map after a run of events, each transformed with what the clock and the random
  generator gave during its call.
\<close>

primrec transformAgentEvents ::
  "'a VibecraftIntegrationOptions_scheme \<Rightarrow> (CallEnv \<times> AgentEventPayload) list
     \<Rightarrow> start_times \<Rightarrow> start_times" where
  "transformAgentEvents cfg [] tbl = tbl"
| "transformAgentEvents cfg (x # xs) tbl =
     transformAgentEvents cfg xs (snd (transformAgentEvent cfg (fst x) tbl (snd x)))"

primrec transformEvents ::
  "'a VibecraftIntegrationOptions_scheme \<Rightarrow> (CallEnv \<times> AgentEventPayload) list
     \<Rightarrow> start_times \<Rightarrow> start_times" where
  "transformEvents cfg [] tbl = tbl"
| "transformEvents cfg (x # xs) tbl =
     transformEvents cfg xs (snd (transformEvent cfg (fst x) tbl (snd x)))"

section \<open>Delivery\<close>

text \<open>
  The senders are \<^verbatim>\<open>async\<close> functions built from \<^verbatim>\<open>try\<close>/\<^verbatim>\<open>catch\<close>. A computation returns
  the effects it had, in order, and either the value it resolved to or the error it
  threw (a rejected promise is \<open>Inl\<close>).
\<close>

datatype js_error = TypeError | TimeoutError | SystemError

datatype effect =
    HttpPost string VibecraftEvent
  | FileAppend string VibecraftEvent
  | ConsoleLog
  | ConsoleError

type_synonym 'a io = "effect list \<times> (js_error + 'a)"

definition io_return :: "'a \<Rightarrow> 'a io" where
  "io_return x = ([], Inr x)"

definition io_throw :: "js_error \<Rightarrow> 'a io" where
  "io_throw e = ([], Inl e)"

definition io_bind :: "'a io \<Rightarrow> ('a \<Rightarrow> 'b io) \<Rightarrow> 'b io" where
  "io_bind m f =
     (case snd m of
        Inl e \<Rightarrow> (fst m, Inl e)
      | Inr x \<Rightarrow> (fst m @ fst (f x), snd (f x)))"

text \<open>\<^verbatim>\<open>try { m } catch (err) { h(err) }\<close>, and \<^verbatim>\<open>m.catch(h)\<close> on a promise.\<close>

definition io_catch :: "'a io \<Rightarrow> (js_error \<Rightarrow> 'a io) \<Rightarrow> 'a io" where
  "io_catch m h =
     (case snd m of
        Inl e \<Rightarrow> (fst m @ fst (h e), snd (h e))
      | Inr x \<Rightarrow> (fst m, Inr x))"

text \<open>
  What the outside world does during one delivery: whether \<^verbatim>\<open>JSON.stringify\<close> throws (a
  cyclic payload), how \<^verbatim>\<open>fetch\<close> ends (a response with a status; or a rejection: the
  destination unreachable, the URL invalid, or the 2000 ms abort signal firing on a
  destination that hangs), whether reading the response text fails, whether importing
  \<^verbatim>\<open>node:fs/promises\<close> fails, whether \<^verbatim>\<open>appendFile\<close> fails (an unwritable path).
\<close>

datatype fetch_outcome = Responds nat | Rejects js_error

record Outcomes =
  stringify_throws :: bool
  fetch_result :: fetch_outcome
  text_rejects :: bool
  import_rejects :: bool
  appendFile_rejects :: bool

definition JSON_stringify :: "Outcomes \<Rightarrow> VibecraftEvent \<Rightarrow> unit io" where
  "JSON_stringify w event = (if stringify_throws w then io_throw TypeError else io_return ())"

definition fetch :: "Outcomes \<Rightarrow> string \<Rightarrow> VibecraftEvent \<Rightarrow> nat io" where
  "fetch w url event =
     ([HttpPost url event],
      case fetch_result w of Responds status \<Rightarrow> Inr status | Rejects e \<Rightarrow> Inl e)"

definition response_ok :: "nat \<Rightarrow> bool" where
  "response_ok status = (200 \<le> status \<and> status \<le> 299)"

definition response_text :: "Outcomes \<Rightarrow> unit io" where
  "response_text w = (if text_rejects w then io_throw TypeError else io_return ())"

definition import_fs :: "Outcomes \<Rightarrow> unit io" where
  "import_fs w = (if import_rejects w then io_throw SystemError else io_return ())"

definition appendFile :: "Outcomes \<Rightarrow> string \<Rightarrow> VibecraftEvent \<Rightarrow> unit io" where
  "appendFile w path event =
     (if appendFile_rejects w then io_throw SystemError else ([FileAppend path event], Inr ()))"

definition logDebug :: "'a VibecraftIntegrationOptions_scheme \<Rightarrow> unit io" where
  "logDebug cfg = (if debug cfg then ([ConsoleLog], Inr ()) else io_return ())"

definition logError :: "unit io" where
  "logError = ([ConsoleError], Inr ())"

text \<open>
  \<^verbatim>\<open>sendToVibecraft\<close> of the adapter. The argument of the first \<^verbatim>\<open>logDebug\<close> is serialized
  before the call, whatever \<^verbatim>\<open>debug\<close> is.
\<close>

definition sendToVibecraft :: "VibecraftAdapterConfig \<Rightarrow> Outcomes \<Rightarrow> VibecraftEvent \<Rightarrow> unit io" where
  "sendToVibecraft cfg w event =
     (if \<not> enabled cfg then io_return ()
      else
        io_catch
          (io_bind (JSON_stringify w event) (\<lambda>_.
           io_bind (logDebug cfg) (\<lambda>_.
           io_bind (JSON_stringify w event) (\<lambda>_.
           io_bind (fetch w (serverUrl cfg) event) (\<lambda>status.
             if \<not> response_ok status then
               io_bind (io_catch (response_text w) (\<lambda>_. io_return ())) (\<lambda>_. logError)
             else io_return ())))))
          (\<lambda>err. logDebug cfg))"

text \<open>\<^verbatim>\<open>appendToEventsFile\<close> of the adapter: its only guard is the file path.\<close>

definition appendToEventsFile ::
  "VibecraftAdapterConfig \<Rightarrow> Outcomes \<Rightarrow> VibecraftEvent \<Rightarrow> unit io" where
  "appendToEventsFile cfg w event =
     (if eventsFilePath cfg = [] then io_return ()
      else
        io_catch
          (io_bind (import_fs w) (\<lambda>_.
           io_bind (JSON_stringify w event) (\<lambda>_.
           io_bind (appendFile w (eventsFilePath cfg) event) (\<lambda>_.
           logDebug cfg))))
          (\<lambda>err. logError))"

text \<open>\<^verbatim>\<open>sendEvent\<close> of \<^verbatim>\<open>vibecraft-integration.ts\<close>.\<close>

definition sendEvent ::
  "'a VibecraftIntegrationOptions_scheme \<Rightarrow> Outcomes \<Rightarrow> VibecraftEvent \<Rightarrow> unit io" where
  "sendEvent opts w event =
     (if \<not> enabled opts then io_return ()
      else
        io_catch
          (io_bind (JSON_stringify w event) (\<lambda>_.
           io_bind (logDebug opts) (\<lambda>_.
           io_bind (JSON_stringify w event) (\<lambda>_.
           io_bind (fetch w (serverUrl opts) event) (\<lambda>status.
             if \<not> response_ok status then logDebug opts else logDebug opts)))))
          (\<lambda>err. logDebug opts))"

text \<open>
  What the adapter's listener does with a destination event:
  \<^verbatim>\<open>sendToVibecraft(e).catch(() => {}); appendToEventsFile(e).catch(() => {})\<close>;
  and what the simple integration's listener does: \<^verbatim>\<open>sendEvent(e).catch(() => {})\<close>.
\<close>

definition dispatch :: "VibecraftAdapterConfig \<Rightarrow> Outcomes \<Rightarrow> VibecraftEvent \<Rightarrow> unit io" where
  "dispatch cfg w event =
     io_bind (io_catch (sendToVibecraft cfg w event) (\<lambda>_. io_return ())) (\<lambda>_.
     io_catch (appendToEventsFile cfg w event) (\<lambda>_. io_return ()))"

definition dispatchSimple ::
  "'a VibecraftIntegrationOptions_scheme \<Rightarrow> Outcomes \<Rightarrow> VibecraftEvent \<Rightarrow> unit io" where
  "dispatchSimple opts w event = io_catch (sendEvent opts w event) (\<lambda>_. io_return ())"

fun isHttpPost :: "effect \<Rightarrow> bool" where
  "isHttpPost (HttpPost url e) = True"
| "isHttpPost x = False"

fun isFileAppend :: "effect \<Rightarrow> bool" where
  "isFileAppend (FileAppend path e) = True"
| "isFileAppend x = False"

definition networkCalls :: "effect list \<Rightarrow> nat" where
  "networkCalls trace = length (filter isHttpPost trace)"

definition fileWrites :: "effect list \<Rightarrow> nat" where
  "fileWrites trace = length (filter isFileAppend trace)"

section \<open>The host event stream\<close>

text \<open>
  Modelled from the spec: \<^verbatim>\<open>onAgentEvent\<close> and the emitter of \<^verbatim>\<open>./agent-events.js\<close>, of which
  the spec says "a subscribable event stream emitting SourceEvent records; subscription
  returns an unsubscribe handle". The host is the list of the subscriptions this module
  holds, in the order they were made; each call of \<^verbatim>\<open>onAgentEvent\<close> registers a new closure,
  which gets a number no subscription in the list has; the handle it returns removes that
  subscription; an emitted event is given to every subscription in turn.
\<close>

type_synonym host = "nat list"

definition fresh_listener :: "host \<Rightarrow> nat" where
  "fresh_listener h = Suc (fold max h 0)"

definition onAgentEvent :: "host \<Rightarrow> nat \<times> host" where
  "onAgentEvent h = (fresh_listener h, h @ [fresh_listener h])"

text \<open>
  Calling a variable that holds a function or \<^verbatim>\<open>null\<close>: the plain call \<^verbatim>\<open>f()\<close> throws a
  TypeError on \<^verbatim>\<open>null\<close>, the optional call \<^verbatim>\<open>f?.()\<close> skips it.
\<close>

fun call_handle :: "nat option \<Rightarrow> host \<Rightarrow> host io" where
  "call_handle None h = io_throw TypeError"
| "call_handle (Some n) h = io_return (removeAll n h)"

fun optional_call :: "nat option \<Rightarrow> host \<Rightarrow> host io" where
  "optional_call None h = io_return h"
| "optional_call (Some n) h = call_handle (Some n) h"

section \<open>Setup and teardown\<close>

text \<open>
  The options a caller passes, every one optional; \<^verbatim>\<open>{ ...DEFAULT_CONFIG, ...userConfig }\<close>
  takes each option the caller gave and the default for the rest. The default working
  directory is \<^verbatim>\<open>process.cwd()\<close> at the time the module is loaded.
\<close>

datatype UserConfig = UserConfig (user_enabled: "bool option") (user_serverUrl: "string option")
  (user_eventsFilePath: "string option") (user_cwd: "string option") (user_debug: "bool option")

definition DEFAULT_CONFIG :: "string \<Rightarrow> VibecraftAdapterConfig" where
  "DEFAULT_CONFIG process_cwd =
     \<lparr>enabled = False, serverUrl = ''http://localhost:4003/event'', debug = False,
      cwd = process_cwd, eventsFilePath = []\<rparr>"

definition DEFAULT_OPTIONS :: "string \<Rightarrow> VibecraftIntegrationOptions" where
  "DEFAULT_OPTIONS process_cwd =
     \<lparr>enabled = False, serverUrl = ''http://localhost:4003/event'', debug = False,
      cwd = process_cwd\<rparr>"

definition mergeConfig :: "VibecraftAdapterConfig \<Rightarrow> UserConfig \<Rightarrow> VibecraftAdapterConfig" where
  "mergeConfig d u =
     \<lparr>enabled = (case user_enabled u of None \<Rightarrow> enabled d | Some b \<Rightarrow> b),
      serverUrl = (case user_serverUrl u of None \<Rightarrow> serverUrl d | Some x \<Rightarrow> x),
      debug = (case user_debug u of None \<Rightarrow> debug d | Some b \<Rightarrow> b),
      cwd = (case user_cwd u of None \<Rightarrow> cwd d | Some x \<Rightarrow> x),
      eventsFilePath = (case user_eventsFilePath u of None \<Rightarrow> eventsFilePath d | Some x \<Rightarrow> x)\<rparr>"

text \<open>The simple integration has no \<^verbatim>\<open>eventsFilePath\<close> option and reads none.\<close>

definition mergeOptions ::
  "VibecraftIntegrationOptions \<Rightarrow> UserConfig \<Rightarrow> VibecraftIntegrationOptions" where
  "mergeOptions d u =
     \<lparr>enabled = (case user_enabled u of None \<Rightarrow> enabled d | Some b \<Rightarrow> b),
      serverUrl = (case user_serverUrl u of None \<Rightarrow> serverUrl d | Some x \<Rightarrow> x),
      debug = (case user_debug u of None \<Rightarrow> debug d | Some b \<Rightarrow> b),
      cwd = (case user_cwd u of None \<Rightarrow> cwd d | Some x \<Rightarrow> x)\<rparr>"

text \<open>The module-level variables of the adapter and of the simple integration.\<close>

record AdapterModule =
  config :: VibecraftAdapterConfig
  unsubscribeAgentEvents :: "nat option"
  toolUseStartTime :: start_times

record IntegrationModule =
  options :: VibecraftIntegrationOptions
  unsubscribe :: "nat option"
  toolStartTimes :: start_times

definition initialAdapterModule :: "string \<Rightarrow> AdapterModule" where
  "initialAdapterModule process_cwd =
     \<lparr>config = DEFAULT_CONFIG process_cwd, unsubscribeAgentEvents = None,
      toolUseStartTime = Map.empty\<rparr>"

definition initialIntegrationModule :: "string \<Rightarrow> IntegrationModule" where
  "initialIntegrationModule process_cwd =
     \<lparr>options = DEFAULT_OPTIONS process_cwd, unsubscribe = None, toolStartTimes = Map.empty\<rparr>"

text \<open>
  The function a setup returns: \<^verbatim>\<open>() => {}\<close> when the merged configuration is disabled,
  the cleanup closure otherwise. The closure reads and writes the module's variables.
\<close>

datatype Teardown = NoopTeardown | CleanupTeardown

definition setupVibecraftIntegration ::
  "string \<Rightarrow> UserConfig \<Rightarrow> AdapterModule \<times> host
     \<Rightarrow> Teardown \<times> effect list \<times> (AdapterModule \<times> host)" where
  "setupVibecraftIntegration process_cwd userConfig s =
     (let m = (fst s)\<lparr>config := mergeConfig (DEFAULT_CONFIG process_cwd) userConfig\<rparr>
      in
        if \<not> enabled (config m) then (NoopTeardown, fst (logDebug (config m)), (m, snd s))
        else
          (CleanupTeardown,
           fst (logDebug (config m)) @ fst (logDebug (config m)),
           (m\<lparr>unsubscribeAgentEvents := Some (fst (onAgentEvent (snd s)))\<rparr>,
            snd (onAgentEvent (snd s)))))"

fun callAdapterTeardown :: "Teardown \<Rightarrow> AdapterModule \<times> host \<Rightarrow> (AdapterModule \<times> host) io" where
  "callAdapterTeardown NoopTeardown s = io_return s"
| "callAdapterTeardown CleanupTeardown s =
     io_bind (logDebug (config (fst s))) (\<lambda>_.
     io_bind (optional_call (unsubscribeAgentEvents (fst s)) (snd s)) (\<lambda>h.
     io_return ((fst s)\<lparr>unsubscribeAgentEvents := None, toolUseStartTime := Map.empty\<rparr>, h)))"

text \<open>
  The listener the adapter subscribes: transform, and deliver what came out. It reads the
  module's variables when an event arrives, not when it was subscribed.
\<close>

definition adapterListener ::
  "Outcomes \<Rightarrow> CallEnv \<Rightarrow> AgentEventPayload \<Rightarrow> AdapterModule \<Rightarrow> effect list \<times> AdapterModule" where
  "adapterListener w env evt m =
     (let r = transformAgentEvent (config m) env (toolUseStartTime m) evt;
          m' = m\<lparr>toolUseStartTime := snd r\<rparr>
      in case fst r of
           None \<Rightarrow> ([], m')
         | Some vibecraftEvent \<Rightarrow> (fst (dispatch (config m') w vibecraftEvent), m'))"

primrec emitToAdapter ::
  "Outcomes \<Rightarrow> CallEnv \<Rightarrow> AgentEventPayload \<Rightarrow> host \<Rightarrow> AdapterModule
     \<Rightarrow> effect list \<times> AdapterModule" where
  "emitToAdapter w env evt [] m = ([], m)"
| "emitToAdapter w env evt (n # ns) m =
     (fst (adapterListener w env evt m)
        @ fst (emitToAdapter w env evt ns (snd (adapterListener w env evt m))),
      snd (emitToAdapter w env evt ns (snd (adapterListener w env evt m))))"

primrec deliverToAdapter ::
  "(Outcomes \<times> CallEnv \<times> AgentEventPayload) list \<Rightarrow> AdapterModule \<times> host
     \<Rightarrow> effect list \<times> (AdapterModule \<times> host)" where
  "deliverToAdapter [] s = ([], s)"
| "deliverToAdapter (x # xs) s =
     (let r = emitToAdapter (fst x) (fst (snd x)) (snd (snd x)) (snd s) (fst s);
          r' = deliverToAdapter xs (snd r, snd s)
      in (fst r @ fst r', snd r'))"

text \<open>
  \<^verbatim>\<open>enableVibecraft\<close> of the simple integration, which also sends a notification that the
  integration is on (\<open>env\<close> is the clock and the random generator during the call, \<open>w\<close>
  what the outside world does with that notification).
\<close>

definition enabled_message :: string where
  "enabled_message =
     ''Vibecraft '' @
     [char_of (0xE9::nat), char_of (0x9B::nat), char_of (0x86::nat),
      char_of (0xE6::nat), char_of (0x88::nat), char_of (0x90::nat),
      char_of (0xE5::nat), char_of (0xB7::nat), char_of (0xB2::nat),
      char_of (0xE5::nat), char_of (0x90::nat), char_of (0xAF::nat),
      char_of (0xE7::nat), char_of (0x94::nat), char_of (0xA8::nat)]"

definition enableVibecraft ::
  "string \<Rightarrow> Outcomes \<Rightarrow> CallEnv \<Rightarrow> UserConfig \<Rightarrow> IntegrationModule \<times> host
     \<Rightarrow> Teardown \<times> effect list \<times> (IntegrationModule \<times> host)" where
  "enableVibecraft process_cwd w env userOptions s =
     (let m = (fst s)\<lparr>options := mergeOptions (DEFAULT_OPTIONS process_cwd) userOptions\<rparr>
      in
        if \<not> enabled (options m) then (NoopTeardown, fst (logDebug (options m)), (m, snd s))
        else
          (CleanupTeardown,
           fst (logDebug (options m)) @ fst (logDebug (options m)) @ fst (logDebug (options m))
             @ fst (dispatchSimple (options m) w
                      (NotificationEvent
                         \<lparr>id' = generateEventId env ''system'', timestamp = now env,
                          sessionId = ''system'', cwd' = cwd (options m)\<rparr>
                         enabled_message ''info''))
             @ fst (logDebug (options m)),
           (m\<lparr>unsubscribe := Some (fst (onAgentEvent (snd s)))\<rparr>,
            snd (onAgentEvent (snd s)))))"

fun callIntegrationTeardown ::
  "Teardown \<Rightarrow> IntegrationModule \<times> host \<Rightarrow> (IntegrationModule \<times> host) io" where
  "callIntegrationTeardown NoopTeardown s = io_return s"
| "callIntegrationTeardown CleanupTeardown s =
     io_bind (logDebug (options (fst s))) (\<lambda>_.
     io_bind (optional_call (unsubscribe (fst s)) (snd s)) (\<lambda>h.
     io_return ((fst s)\<lparr>unsubscribe := None, toolStartTimes := Map.empty\<rparr>, h)))"

definition integrationListener ::
  "Outcomes \<Rightarrow> CallEnv \<Rightarrow> AgentEventPayload \<Rightarrow> IntegrationModule
     \<Rightarrow> effect list \<times> IntegrationModule" where
  "integrationListener w env evt m =
     (let r = transformEvent (options m) env (toolStartTimes m) evt;
          m' = m\<lparr>toolStartTimes := snd r\<rparr>
      in case fst r of
           None \<Rightarrow> ([], m')
         | Some vibecraftEvent \<Rightarrow> (fst (dispatchSimple (options m') w vibecraftEvent), m'))"

primrec emitToIntegration ::
  "Outcomes \<Rightarrow> CallEnv \<Rightarrow> AgentEventPayload \<Rightarrow> host \<Rightarrow> IntegrationModule
     \<Rightarrow> effect list \<times> IntegrationModule" where
  "emitToIntegration w env evt [] m = ([], m)"
| "emitToIntegration w env evt (n # ns) m =
     (fst (integrationListener w env evt m)
        @ fst (emitToIntegration w env evt ns (snd (integrationListener w env evt m))),
      snd (emitToIntegration w env evt ns (snd (integrationListener w env evt m))))"

primrec deliverToIntegration ::
  "(Outcomes \<times> CallEnv \<times> AgentEventPayload) list \<Rightarrow> IntegrationModule \<times> host
     \<Rightarrow> effect list \<times> (IntegrationModule \<times> host)" where
  "deliverToIntegration [] s = ([], s)"
| "deliverToIntegration (x # xs) s =
     (let r = emitToIntegration (fst x) (fst (snd x)) (snd (snd x)) (snd s) (fst s);
          r' = deliverToIntegration xs (snd r, snd s)
      in (fst r @ fst r', snd r'))"

section \<open>Sample inputs\<close>

definition sample_config :: VibecraftAdapterConfig where
  "sample_config =
     \<lparr>enabled = True, serverUrl = ''http://localhost:4003/event'', debug = False,
      cwd = ''/work'', eventsFilePath = []\<rparr>"

definition sample_options :: VibecraftIntegrationOptions where
  "sample_options =
     \<lparr>enabled = True, serverUrl = ''http://localhost:4003/event'', debug = True,
      cwd = ''/work''\<rparr>"

definition sample_env :: CallEnv where
  "sample_env = \<lparr>now = 1700000000000, random36 = ''k3j9x2a''\<rparr>"

text \<open>
  An event of run \<open>run-1\<close> in session \<open>agent:main\<close>, with the given stream, phase,
  tool-invocation id, timestamp and sequence number.
\<close>

definition sample_event ::
  "string \<Rightarrow> string \<Rightarrow> string option \<Rightarrow> int \<Rightarrow> int \<Rightarrow> AgentEventPayload" where
  "sample_event st ph tid t n =
     \<lparr>runId = ''run-1'', seq = n, stream = st, ts = t,
      data = \<lparr>phase = Some ph, toolName = Some ''Read'', toolUseId = tid, params = None,
              result = None, error = None, assistantText = None\<rparr>,
      sessionKey = Some ''agent:main''\<rparr>"

text \<open>The destination is down and the events file cannot be written.\<close>

definition world_down :: Outcomes where
  "world_down =
     \<lparr>stringify_throws = False, fetch_result = Rejects TypeError, text_rejects = False,
      import_rejects = False, appendFile_rejects = True\<rparr>"

text \<open>The destination answers 500 and its body cannot be read.\<close>

definition world_500 :: Outcomes where
  "world_500 =
     \<lparr>stringify_throws = False, fetch_result = Responds 500, text_rejects = True,
      import_rejects = False, appendFile_rejects = False\<rparr>"

text \<open>The destination hangs and the abort signal fires.\<close>

definition world_hangs :: Outcomes where
  "world_hangs =
     \<lparr>stringify_throws = False, fetch_result = Rejects TimeoutError, text_rejects = False,
      import_rejects = False, appendFile_rejects = False\<rparr>"

text \<open>Everything works.\<close>

definition world_up :: Outcomes where
  "world_up =
     \<lparr>stringify_throws = False, fetch_result = Responds 200, text_rejects = False,
      import_rejects = False, appendFile_rejects = False\<rparr>"

definition sample_notification :: VibecraftEvent where
  "sample_notification =
     NotificationEvent
       \<lparr>id' = ''run-1-1700000000000-k3j9x2a'', timestamp = 1700000000000,
        sessionId = ''run-1'', cwd' = ''/work''\<rparr>
       ''boom'' ''error''"

definition user_on :: UserConfig where
  "user_on = UserConfig (Some True) None None None None"

definition user_off_with_file :: UserConfig where
  "user_off_with_file = UserConfig (Some False) None (Some ''events.jsonl'') None None"

definition user_off :: UserConfig where
  "user_off = UserConfig None None None None None"

text \<open>
  The adapter after a first setup with \<^verbatim>\<open>{ enabled: true }\<close> in a freshly loaded module;
  after a pre-phase tool event was then emitted; and the configuration a later setup call
  with \<^verbatim>\<open>{ enabled: false, eventsFilePath: 'events.jsonl' }\<close> leaves in the module.
\<close>

definition adapter_enabled_state :: "AdapterModule \<times> host" where
  "adapter_enabled_state =
     snd (snd (setupVibecraftIntegration ''/work'' user_on (initialAdapterModule ''/work'', [])))"

definition adapter_busy_state :: "AdapterModule \<times> host" where
  "adapter_busy_state =
     snd (deliverToAdapter
            [(world_up, sample_env, sample_event ''tool'' ''pre'' (Some ''t1'') 1000 1)]
            adapter_enabled_state)"

text \<open>A later setup call with no options at all (so disabled), made in that state.\<close>

definition adapter_second_setup :: "Teardown \<times> effect list \<times> (AdapterModule \<times> host)" where
  "adapter_second_setup = setupVibecraftIntegration ''/work'' user_off adapter_busy_state"

definition disabled_with_file :: VibecraftAdapterConfig where
  "disabled_with_file = mergeConfig (DEFAULT_CONFIG ''/work'') user_off_with_file"

section \<open>Facts about the transformers\<close>

text \<open>An event id, and a tool-invocation id made up from session id and sequence number.\<close>

lemma generateEventId_sample:
  "generateEventId sample_env ''run-1'' = ''run-1-1700000000000-k3j9x2a''"
  by (simp add: generateEventId_def sample_env_def number_to_string_def decimal_of_nat.simps
        digit_char_def)

lemma effectiveToolUseId_synthesized:
  "effectiveToolUseId (sample_event ''tool'' ''pre'' None 1000 42) = ''agent:main-42''"
  by (simp add: effectiveToolUseId_def sample_event_def number_to_string_def
        decimal_of_nat.simps digit_char_def)

lemma transformAgentEvent_table:
  "snd (transformAgentEvent cfg env tbl evt) =
     (if isToolPre evt then tbl(effectiveToolUseId evt \<mapsto> ts evt) else tbl)"
  by (simp add: transformAgentEvent_def isToolPre_def effectiveToolUseId_def Let_def)

lemma transformEvent_table:
  "snd (transformEvent opts env tbl evt) =
     (if isToolPre evt then tbl(effectiveToolUseId evt \<mapsto> ts evt) else tbl)"
  by (simp add: transformEvent_def isToolPre_def effectiveToolUseId_def Let_def)

lemma transformAgentEvent_post:
  "isToolPost evt \<Longrightarrow>
   fst (transformAgentEvent cfg env tbl evt) =
     Some (PostToolUseEvent
             \<lparr>id' = generateEventId env (str_or (sessionKey evt) (runId evt)),
              timestamp = ts evt, sessionId = str_or (sessionKey evt) (runId evt),
              cwd' = cwd cfg\<rparr>
             (toolName (data evt)) (val_or (params (data evt)) (JObj []))
             (val_or (result (data evt)) (JObj [])) (effectiveToolUseId evt)
             (error (data evt) = None)
             (duration_since (tbl (effectiveToolUseId evt)) (ts evt)))"
  by (simp add: transformAgentEvent_def isToolPost_def effectiveToolUseId_def Let_def)

lemma transformEvent_post:
  "isToolPost evt \<Longrightarrow>
   fst (transformEvent opts env tbl evt) =
     Some (PostToolUseEvent
             \<lparr>id' = generateEventId env (str_or (sessionKey evt) (runId evt)),
              timestamp = ts evt, sessionId = str_or (sessionKey evt) (runId evt),
              cwd' = cwd opts\<rparr>
             (toolName (data evt)) (val_or (params (data evt)) (JObj []))
             (val_or (result (data evt)) (JObj [])) (effectiveToolUseId evt)
             (error (data evt) = None)
             (duration_since (tbl (effectiveToolUseId evt)) (ts evt)))"
  by (simp add: transformEvent_def isToolPost_def effectiveToolUseId_def Let_def)

text \<open>An entry stays as it is while no pre-phase tool event with its id is transformed.\<close>

lemma transformAgentEvents_keeps:
  "\<forall>x \<in> set evs. \<not> (isToolPre (snd x) \<and> effectiveToolUseId (snd x) = k) \<Longrightarrow>
   transformAgentEvents cfg evs tbl k = tbl k"
  by (induction evs arbitrary: tbl) (auto simp: transformAgentEvent_table)

lemma transformEvents_keeps:
  "\<forall>x \<in> set evs. \<not> (isToolPre (snd x) \<and> effectiveToolUseId (snd x) = k) \<Longrightarrow>
   transformEvents opts evs tbl k = tbl k"
  by (induction evs arbitrary: tbl) (auto simp: transformEvent_table)

lemma sessionId_of_output:
  "fst (transformAgentEvent cfg env tbl evt) = Some ev \<Longrightarrow>
   sessionId (base ev) = str_or (sessionKey evt) (runId evt)"
  by (auto simp: transformAgentEvent_def Let_def split: if_splits)

lemma sessionId_of_output_simple:
  "fst (transformEvent opts env tbl evt) = Some ev \<Longrightarrow>
   sessionId (base ev) = str_or (sessionKey evt) (runId evt)"
  by (auto simp: transformEvent_def Let_def split: if_splits)

text \<open>
  A start time of zero is stored like any other, and read back as falsy: the post event
  then carries no duration.
\<close>

lemma zero_start_time_gives_no_duration:
  "map_option duration
     (fst (transformAgentEvent sample_config sample_env
             (transformAgentEvents sample_config
                [(sample_env, sample_event ''tool'' ''pre'' (Some ''t1'') 0 1)] Map.empty)
             (sample_event ''tool'' ''post'' (Some ''t1'') 450 2)))
     = Some None"
  by (simp add: sample_event_def transformAgentEvent_def Let_def)

text \<open>
  An empty \<^verbatim>\<open>toolUseId\<close> in the payload is falsy too: the id is then made up from
  session id and sequence number, so a pre and a post event that both carry the empty
  string get different ids, and the post event carries no duration.
\<close>

lemma empty_tool_use_id_gives_no_duration:
  "toolUseId (data (sample_event ''tool'' ''pre'' (Some []) 1000 1))
     = toolUseId (data (sample_event ''tool'' ''post'' (Some []) 1450 2))
   \<and> effectiveToolUseId (sample_event ''tool'' ''pre'' (Some []) 1000 1) = ''agent:main-1''
   \<and> effectiveToolUseId (sample_event ''tool'' ''post'' (Some []) 1450 2) = ''agent:main-2''
   \<and> map_option duration
       (fst (transformAgentEvent sample_config sample_env
               (transformAgentEvents sample_config
                  [(sample_env, sample_event ''tool'' ''pre'' (Some []) 1000 1)] Map.empty)
               (sample_event ''tool'' ''post'' (Some []) 1450 2)))
       = Some None
   \<and> map_option duration
       (fst (transformEvent sample_options sample_env
               (transformEvents sample_options
                  [(sample_env, sample_event ''tool'' ''pre'' (Some []) 1000 1)] Map.empty)
               (sample_event ''tool'' ''post'' (Some []) 1450 2)))
       = Some None"
  by (simp add: sample_event_def effectiveToolUseId_def transformAgentEvent_def
        transformEvent_def number_to_string_def decimal_of_nat.simps digit_char_def Let_def)

section \<open>Duration of a tool invocation\<close>

text \<open>
  C1, as the specification states it: for every pair of tool events (pre, post) with the
  same toolUseId, the pre event transformed before the post event, the ToolPost record
  carries \<open>duration = post.timestamp - pre.timestamp\<close>. It fails when a second pre event
  with the same id is transformed in between: \<^verbatim>\<open>Map.set\<close> overwrites the start time, and
  the duration is counted from the later one (250, not 450).
\<close>

theorem tool_post_duration_counterexample:
  "isToolPre (sample_event ''tool'' ''pre'' (Some ''t1'') 1000 1)
   \<and> isToolPost (sample_event ''tool'' ''post'' (Some ''t1'') 1450 3)
   \<and> effectiveToolUseId (sample_event ''tool'' ''pre'' (Some ''t1'') 1000 1)
       = effectiveToolUseId (sample_event ''tool'' ''post'' (Some ''t1'') 1450 3)
   \<and> map_option duration
       (fst (transformAgentEvent sample_config sample_env
               (transformAgentEvents sample_config
                  [(sample_env, sample_event ''tool'' ''pre'' (Some ''t1'') 1000 1),
                   (sample_env, sample_event ''tool'' ''pre'' (Some ''t1'') 1200 2)]
                  Map.empty)
               (sample_event ''tool'' ''post'' (Some ''t1'') 1450 3)))
       = Some (Some 250)
   \<and> Some (Some (250::int))
       \<noteq> Some (Some (ts (sample_event ''tool'' ''post'' (Some ''t1'') 1450 3)
                        - ts (sample_event ''tool'' ''pre'' (Some ''t1'') 1000 1)))"
  by (simp add: isToolPre_def isToolPost_def effectiveToolUseId_def sample_event_def
        transformAgentEvent_def Let_def)

text \<open>
  C1, amended: for every pair of tool events (pre, post) for which the transformer
  computes the same tool-invocation id (the payload's \<^verbatim>\<open>toolUseId\<close> when it is present and
  not the empty string, otherwise the session id, a dash and the sequence number;
  \<open>effectiveToolUseId\<close>), where the pre event has a timestamp other than zero and is the
  last pre-phase tool event with that computed id transformed before the post event, the
  transforms running one after the other on one correlation table, the ToolPost record
  produced for the post event carries \<open>duration = post.timestamp - pre.timestamp\<close>. This
  holds for both transformers, from any state of the correlation table, and whatever
  events that are not pre-phase tool events with that computed id are transformed in
  between (\<open>between\<close>).
\<close>

theorem tool_post_duration:
  fixes cfg :: VibecraftAdapterConfig and opts :: VibecraftIntegrationOptions
  assumes "isToolPre pre" and "isToolPost post"
    and "effectiveToolUseId pre = effectiveToolUseId post"
    and "ts pre \<noteq> 0"
    and "\<forall>x \<in> set between.
           \<not> (isToolPre (snd x) \<and> effectiveToolUseId (snd x) = effectiveToolUseId pre)"
  shows "map_option type'
           (fst (transformAgentEvent cfg env2
                   (transformAgentEvents cfg ((env1, pre) # between) tbl) post))
           = Some ''post_tool_use''
       \<and> map_option duration
           (fst (transformAgentEvent cfg env2
                   (transformAgentEvents cfg ((env1, pre) # between) tbl) post))
           = Some (Some (ts post - ts pre))
       \<and> map_option type'
           (fst (transformEvent opts env2
                   (transformEvents opts ((env1, pre) # between) tbl) post))
           = Some ''post_tool_use''
       \<and> map_option duration
           (fst (transformEvent opts env2
                   (transformEvents opts ((env1, pre) # between) tbl) post))
           = Some (Some (ts post - ts pre))"
proof -
  let ?k = "effectiveToolUseId pre"
  have a: "transformAgentEvents cfg ((env1, pre) # between) tbl ?k = Some (ts pre)"
    using assms(1,5) by (simp add: transformAgentEvents_keeps transformAgentEvent_table)
  have b: "transformEvents opts ((env1, pre) # between) tbl ?k = Some (ts pre)"
    using assms(1,5) by (simp add: transformEvents_keeps transformEvent_table)
  from a b assms(3,4) show ?thesis
    by (simp add: transformAgentEvent_post [OF assms(2)] transformEvent_post [OF assms(2)])
qed

text \<open>
  The scenario of the specification: pre at 1000, post at 1450, a tool event of another
  invocation in between; the duration is 450.
\<close>

theorem tool_post_duration_witness:
  "isToolPre (sample_event ''tool'' ''pre'' (Some ''t1'') 1000 1)
   \<and> isToolPost (sample_event ''tool'' ''post'' (Some ''t1'') 1450 3)
   \<and> effectiveToolUseId (sample_event ''tool'' ''pre'' (Some ''t1'') 1000 1)
       = effectiveToolUseId (sample_event ''tool'' ''post'' (Some ''t1'') 1450 3)
   \<and> ts (sample_event ''tool'' ''pre'' (Some ''t1'') 1000 1) \<noteq> 0
   \<and> \<not> (isToolPre (sample_event ''tool'' ''pre'' (Some ''t2'') 1200 2)
          \<and> effectiveToolUseId (sample_event ''tool'' ''pre'' (Some ''t2'') 1200 2)
              = effectiveToolUseId (sample_event ''tool'' ''pre'' (Some ''t1'') 1000 1))
   \<and> map_option duration
       (fst (transformAgentEvent sample_config sample_env
               (transformAgentEvents sample_config
                  [(sample_env, sample_event ''tool'' ''pre'' (Some ''t1'') 1000 1),
                   (sample_env, sample_event ''tool'' ''pre'' (Some ''t2'') 1200 2)]
                  Map.empty)
               (sample_event ''tool'' ''post'' (Some ''t1'') 1450 3)))
       = Some (Some 450)
   \<and> map_option duration
       (fst (transformEvent sample_options sample_env
               (transformEvents sample_options
                  [(sample_env, sample_event ''tool'' ''pre'' (Some ''t1'') 1000 1),
                   (sample_env, sample_event ''tool'' ''pre'' (Some ''t2'') 1200 2)]
                  Map.empty)
               (sample_event ''tool'' ''post'' (Some ''t1'') 1450 3)))
       = Some (Some 450)"
proof -
  let ?pre = "sample_event ''tool'' ''pre'' (Some ''t1'') 1000 1"
  let ?mid = "sample_event ''tool'' ''pre'' (Some ''t2'') 1200 2"
  let ?post = "sample_event ''tool'' ''post'' (Some ''t1'') 1450 3"
  have h1: "isToolPre ?pre" by (simp add: isToolPre_def sample_event_def)
  have h2: "isToolPost ?post" by (simp add: isToolPost_def sample_event_def)
  have h3: "effectiveToolUseId ?pre = effectiveToolUseId ?post"
    by (simp add: effectiveToolUseId_def sample_event_def)
  have h4: "ts ?pre \<noteq> 0" by (simp add: sample_event_def)
  have h5: "\<forall>x \<in> set [(sample_env, ?mid)].
              \<not> (isToolPre (snd x) \<and> effectiveToolUseId (snd x) = effectiveToolUseId ?pre)"
    by (simp add: effectiveToolUseId_def sample_event_def)
  have t: "ts ?post - ts ?pre = 450" by (simp add: sample_event_def)
  from tool_post_duration
         [OF h1 h2 h3 h4 h5, of sample_config sample_env sample_env Map.empty sample_options]
  show ?thesis using h1 h2 h3 h4 h5 unfolding t by simp
qed



section \<open>Success of a tool invocation\<close>

text \<open>
  C4. For every post-phase tool event, the ToolPost record has \<open>success = true\<close> if and
  only if the payload has no error property (\<^verbatim>\<open>evt.data.error === undefined\<close>), in both
  transformers.
\<close>

theorem post_success_iff_no_error:
  fixes cfg :: VibecraftAdapterConfig and opts :: VibecraftIntegrationOptions
  assumes "isToolPost evt"
  shows "map_option type' (fst (transformAgentEvent cfg env tbl evt)) = Some ''post_tool_use''
       \<and> map_option success (fst (transformAgentEvent cfg env tbl evt))
           = Some (error (data evt) = None)
       \<and> map_option type' (fst (transformEvent opts env tbl evt)) = Some ''post_tool_use''
       \<and> map_option success (fst (transformEvent opts env tbl evt))
           = Some (error (data evt) = None)"
  by (simp add: transformAgentEvent_post [OF assms] transformEvent_post [OF assms])

text \<open>A post event without an error, and the same event with the error \<open>ENOENT\<close>.\<close>

theorem post_success_iff_no_error_witness:
  "isToolPost (sample_event ''tool'' ''post'' (Some ''t1'') 1450 3)
   \<and> isToolPost ((sample_event ''tool'' ''post'' (Some ''t1'') 1450 3)
        \<lparr>data := (data (sample_event ''tool'' ''post'' (Some ''t1'') 1450 3))
                   \<lparr>error := Some ''ENOENT''\<rparr>\<rparr>)
   \<and> map_option success
       (fst (transformAgentEvent sample_config sample_env Map.empty
               (sample_event ''tool'' ''post'' (Some ''t1'') 1450 3))) = Some True
   \<and> map_option success
       (fst (transformEvent sample_options sample_env Map.empty
               ((sample_event ''tool'' ''post'' (Some ''t1'') 1450 3)
                  \<lparr>data := (data (sample_event ''tool'' ''post'' (Some ''t1'') 1450 3))
                             \<lparr>error := Some ''ENOENT''\<rparr>\<rparr>))) = Some False"
proof -
  let ?ok = "sample_event ''tool'' ''post'' (Some ''t1'') 1450 3"
  let ?bad = "?ok\<lparr>data := (data ?ok)\<lparr>error := Some ''ENOENT''\<rparr>\<rparr>"
  have h1: "isToolPost ?ok" by (simp add: isToolPost_def sample_event_def)
  have h2: "isToolPost ?bad" by (simp add: isToolPost_def sample_event_def)
  have e1: "(error (data ?ok) = None) = True" by (simp add: sample_event_def)
  have e2: "(error (data ?bad) = None) = False" by (simp add: sample_event_def)
  from post_success_iff_no_error [OF h1, of sample_config sample_env Map.empty sample_options]
    post_success_iff_no_error [OF h2, of sample_config sample_env Map.empty sample_options]
  show ?thesis using h1 h2 unfolding e1 e2 by blast
qed

section \<open>Session ids\<close>

text \<open>
  C6, as the specification states it: the session id of the destination event is the
  event's session key when the session key is present. It fails for a session key that is
  present and empty: \<^verbatim>\<open>evt.sessionKey || evt.runId\<close> then takes the run id.
\<close>

theorem session_id_counterexample:
  "sessionKey ((sample_event ''lifecycle'' ''start'' None 1000 1)\<lparr>sessionKey := Some []\<rparr>)
     = Some []
   \<and> map_option (sessionId \<circ> base)
       (fst (transformAgentEvent sample_config sample_env Map.empty
               ((sample_event ''lifecycle'' ''start'' None 1000 1)\<lparr>sessionKey := Some []\<rparr>)))
       = Some ''run-1''
   \<and> Some ''run-1'' \<noteq> Some []"
  by (simp add: sample_event_def transformAgentEvent_def Let_def)

text \<open>
  C6, amended: for every source event that yields a destination event, the session id of
  that event is the event's session key when the session key is present and not the empty
  string, and otherwise (absent or empty) the event's run id; in both transformers.
\<close>

theorem session_id_resolution:
  fixes cfg :: VibecraftAdapterConfig and opts :: VibecraftIntegrationOptions
  shows "(\<forall>ev. fst (transformAgentEvent cfg env tbl evt) = Some ev \<longrightarrow>
            sessionId (base ev) =
              (case sessionKey evt of
                 None \<Rightarrow> runId evt
               | Some k \<Rightarrow> if k = [] then runId evt else k))
       \<and> (\<forall>ev. fst (transformEvent opts env tbl evt) = Some ev \<longrightarrow>
            sessionId (base ev) =
              (case sessionKey evt of
                 None \<Rightarrow> runId evt
               | Some k \<Rightarrow> if k = [] then runId evt else k))"
  by (auto simp: sessionId_of_output sessionId_of_output_simple split: option.splits)

text \<open>A session key that is there, one that is missing, one that is empty.\<close>

theorem session_id_resolution_witness:
  "map_option (sessionId \<circ> base)
     (fst (transformAgentEvent sample_config sample_env Map.empty
             (sample_event ''lifecycle'' ''start'' None 1000 1))) = Some ''agent:main''
   \<and> map_option (sessionId \<circ> base)
       (fst (transformEvent sample_options sample_env Map.empty
               ((sample_event ''lifecycle'' ''start'' None 1000 1)\<lparr>sessionKey := None\<rparr>)))
       = Some ''run-1''
   \<and> map_option (sessionId \<circ> base)
       (fst (transformEvent sample_options sample_env Map.empty
               ((sample_event ''lifecycle'' ''start'' None 1000 1)\<lparr>sessionKey := Some []\<rparr>)))
       = Some ''run-1''"
proof -
  let ?e1 = "sample_event ''lifecycle'' ''start'' None 1000 1"
  let ?e2 = "?e1\<lparr>sessionKey := None\<rparr>"
  let ?e3 = "?e1\<lparr>sessionKey := Some []\<rparr>"
  obtain v1 where v1: "fst (transformAgentEvent sample_config sample_env Map.empty ?e1) = Some v1"
    by (simp add: sample_event_def transformAgentEvent_def Let_def)
  obtain v2 where v2: "fst (transformEvent sample_options sample_env Map.empty ?e2) = Some v2"
    by (simp add: sample_event_def transformEvent_def Let_def)
  obtain v3 where v3: "fst (transformEvent sample_options sample_env Map.empty ?e3) = Some v3"
    by (simp add: sample_event_def transformEvent_def Let_def)
  from session_id_resolution [of sample_config sample_env Map.empty ?e1 sample_options] v1
  have "sessionId (base v1) = ''agent:main''" by (simp add: sample_event_def)
  moreover
  from session_id_resolution [of sample_config sample_env Map.empty ?e2 sample_options] v2
  have "sessionId (base v2) = ''run-1''" by (simp add: sample_event_def)
  moreover
  from session_id_resolution [of sample_config sample_env Map.empty ?e3 sample_options] v3
  have "sessionId (base v3) = ''run-1''" by (simp add: sample_event_def)
  ultimately show ?thesis using v1 v2 v3 by simp
qed

section \<open>Lifecycle start\<close>

text \<open>
  C8. Every source event with stream lifecycle and phase start is transformed into exactly
  one destination event, a SessionStart whose source is "startup", by both transformers.
\<close>

theorem lifecycle_start_gives_session_start:
  fixes cfg :: VibecraftAdapterConfig and opts :: VibecraftIntegrationOptions
  assumes "stream evt = ''lifecycle''" and "phase (data evt) = Some ''start''"
  shows "(\<exists>b. fst (transformAgentEvent cfg env tbl evt) = Some (SessionStartEvent b ''startup''))
       \<and> (\<exists>b. fst (transformEvent opts env tbl evt) = Some (SessionStartEvent b ''startup''))"
  using assms by (simp add: transformAgentEvent_def transformEvent_def Let_def)

theorem lifecycle_start_gives_session_start_witness:
  "stream (sample_event ''lifecycle'' ''start'' None 1000 1) = ''lifecycle''
   \<and> phase (data (sample_event ''lifecycle'' ''start'' None 1000 1)) = Some ''start''
   \<and> (\<exists>b. fst (transformAgentEvent sample_config sample_env Map.empty
                  (sample_event ''lifecycle'' ''start'' None 1000 1))
            = Some (SessionStartEvent b ''startup''))
   \<and> (\<exists>b. fst (transformEvent sample_options sample_env Map.empty
                  (sample_event ''lifecycle'' ''start'' None 1000 1))
            = Some (SessionStartEvent b ''startup''))"
proof -
  let ?e = "sample_event ''lifecycle'' ''start'' None 1000 1"
  have h1: "stream ?e = ''lifecycle''" by (simp add: sample_event_def)
  have h2: "phase (data ?e) = Some ''start''" by (simp add: sample_event_def)
  from lifecycle_start_gives_session_start
         [OF h1 h2, of sample_config sample_env Map.empty sample_options]
  show ?thesis using h1 h2 by blast
qed

section \<open>Events that give no output\<close>

text \<open>
  C9. A source event whose stream is none of lifecycle, tool, assistant and error, and
  every event of the assistant stream, yields no destination event in either transformer.
  The transformers have no \<^verbatim>\<open>throw\<close> and read only properties of the event and of its
  \<^verbatim>\<open>data\<close> object, so on an event of the declared type they return; here they are total
  functions whose result for these events is \<open>None\<close>, with the table as it was.
\<close>

theorem unrecognized_stream_gives_nothing:
  fixes cfg :: VibecraftAdapterConfig and opts :: VibecraftIntegrationOptions
  assumes "stream evt \<notin> {''lifecycle'', ''tool'', ''assistant'', ''error''}
           \<or> stream evt = ''assistant''"
  shows "transformAgentEvent cfg env tbl evt = (None, tbl)
       \<and> transformEvent opts env tbl evt = (None, tbl)"
  using assms by (auto simp: transformAgentEvent_def transformEvent_def Let_def)

theorem unrecognized_stream_gives_nothing_witness:
  "stream (sample_event ''compaction'' ''start'' None 1000 1)
     \<notin> {''lifecycle'', ''tool'', ''assistant'', ''error''}
   \<and> stream (sample_event ''assistant'' ''pre'' (Some ''t1'') 1000 1) = ''assistant''
   \<and> transformAgentEvent sample_config sample_env [''t1'' \<mapsto> 5]
       (sample_event ''compaction'' ''start'' None 1000 1) = (None, [''t1'' \<mapsto> 5])
   \<and> transformEvent sample_options sample_env [''t1'' \<mapsto> 5]
       (sample_event ''assistant'' ''pre'' (Some ''t1'') 1000 1) = (None, [''t1'' \<mapsto> 5])"
proof -
  let ?e1 = "sample_event ''compaction'' ''start'' None 1000 1"
  let ?e2 = "sample_event ''assistant'' ''pre'' (Some ''t1'') 1000 1"
  have h1: "stream ?e1 \<notin> {''lifecycle'', ''tool'', ''assistant'', ''error''}"
    by (simp add: sample_event_def)
  have h2: "stream ?e2 = ''assistant''" by (simp add: sample_event_def)
  from h1 have g1: "stream ?e1 \<notin> {''lifecycle'', ''tool'', ''assistant'', ''error''}
                    \<or> stream ?e1 = ''assistant''" by (rule disjI1)
  from h2 have g2: "stream ?e2 \<notin> {''lifecycle'', ''tool'', ''assistant'', ''error''}
                    \<or> stream ?e2 = ''assistant''" by (rule disjI2)
  from unrecognized_stream_gives_nothing
         [OF g1, of sample_config sample_env "[''t1'' \<mapsto> 5]" sample_options]
    unrecognized_stream_gives_nothing
         [OF g2, of sample_config sample_env "[''t1'' \<mapsto> 5]" sample_options]
  show ?thesis using h1 h2 by blast
qed

section \<open>The correlation table\<close>

text \<open>
  C10. A source event that is not a tool event with phase pre (a post-phase tool event, a
  lifecycle event, an error event, an event of any other stream) leaves the correlation
  table exactly as it was; a pre-phase tool event stores its timestamp under its
  tool-invocation id, as a new entry or over the old one; and no call of a transformer
  removes an entry. This holds for both transformers.
\<close>

theorem transform_table_frame:
  fixes cfg :: VibecraftAdapterConfig and opts :: VibecraftIntegrationOptions
  shows "(\<not> (stream evt = ''tool'' \<and> phase (data evt) = Some ''pre'') \<longrightarrow>
            snd (transformAgentEvent cfg env tbl evt) = tbl
          \<and> snd (transformEvent opts env tbl evt) = tbl)
       \<and> (stream evt = ''tool'' \<and> phase (data evt) = Some ''pre'' \<longrightarrow>
            snd (transformAgentEvent cfg env tbl evt) = tbl(effectiveToolUseId evt \<mapsto> ts evt)
          \<and> snd (transformEvent opts env tbl evt) = tbl(effectiveToolUseId evt \<mapsto> ts evt))
       \<and> dom tbl \<subseteq> dom (snd (transformAgentEvent cfg env tbl evt))
       \<and> dom tbl \<subseteq> dom (snd (transformEvent opts env tbl evt))"
  by (auto simp: transformAgentEvent_table transformEvent_table isToolPre_def)

text \<open>
  A post event leaves the entry of its own invocation in the table; a pre event with a
  recorded id overwrites the entry.
\<close>

theorem transform_table_frame_witness:
  "\<not> (stream (sample_event ''tool'' ''post'' (Some ''t1'') 1450 3) = ''tool''
        \<and> phase (data (sample_event ''tool'' ''post'' (Some ''t1'') 1450 3)) = Some ''pre'')
   \<and> snd (transformAgentEvent sample_config sample_env [''t1'' \<mapsto> 1000]
            (sample_event ''tool'' ''post'' (Some ''t1'') 1450 3)) = [''t1'' \<mapsto> 1000]
   \<and> (stream (sample_event ''tool'' ''pre'' (Some ''t1'') 1200 2) = ''tool''
        \<and> phase (data (sample_event ''tool'' ''pre'' (Some ''t1'') 1200 2)) = Some ''pre'')
   \<and> snd (transformEvent sample_options sample_env [''t1'' \<mapsto> 1000]
            (sample_event ''tool'' ''pre'' (Some ''t1'') 1200 2)) = [''t1'' \<mapsto> 1200]"
proof -
  let ?post = "sample_event ''tool'' ''post'' (Some ''t1'') 1450 3"
  let ?pre = "sample_event ''tool'' ''pre'' (Some ''t1'') 1200 2"
  have h1: "\<not> (stream ?post = ''tool'' \<and> phase (data ?post) = Some ''pre'')"
    by (simp add: sample_event_def)
  have h2: "stream ?pre = ''tool'' \<and> phase (data ?pre) = Some ''pre''"
    by (simp add: sample_event_def)
  have k: "effectiveToolUseId ?pre = ''t1''" and t: "ts ?pre = 1200"
    by (simp_all add: effectiveToolUseId_def sample_event_def)
  from transform_table_frame
         [of ?post sample_config sample_env "[''t1'' \<mapsto> 1000]" sample_options] h1
  have a: "snd (transformAgentEvent sample_config sample_env [''t1'' \<mapsto> 1000] ?post)
             = [''t1'' \<mapsto> 1000]" by blast
  from transform_table_frame
         [of ?pre sample_config sample_env "[''t1'' \<mapsto> 1000]" sample_options] h2
  have "snd (transformEvent sample_options sample_env [''t1'' \<mapsto> 1000] ?pre)
          = [''t1'' \<mapsto> 1000](effectiveToolUseId ?pre \<mapsto> ts ?pre)" by blast
  then have b: "snd (transformEvent sample_options sample_env [''t1'' \<mapsto> 1000] ?pre)
                  = [''t1'' \<mapsto> 1200]" by (simp add: k t)
  from a b h1 h2 show ?thesis by blast
qed

section \<open>Delivery never throws\<close>

lemma logDebug_returns: "snd (logDebug cfg) = Inr ()"
  by (simp add: logDebug_def io_return_def)

lemma logError_returns: "snd logError = Inr ()"
  by (simp add: logError_def)

text \<open>A \<^verbatim>\<open>try\<close> whose handler always returns, returns.\<close>

lemma io_catch_returns:
  fixes m :: "unit io"
  assumes "\<And>e. snd (h e) = Inr ()"
  shows "snd (io_catch m h) = Inr ()"
  using assms by (cases "snd m") (simp_all add: io_catch_def)

lemma io_bind_returns:
  fixes f :: "'a \<Rightarrow> unit io"
  assumes "\<exists>x. snd m = Inr x" and "\<And>x. snd (f x) = Inr ()"
  shows "snd (io_bind m f) = Inr ()"
  using assms by (auto simp: io_bind_def)

lemma sendToVibecraft_returns: "snd (sendToVibecraft cfg w event) = Inr ()"
  by (simp add: sendToVibecraft_def io_return_def io_catch_returns logDebug_returns)

lemma appendToEventsFile_returns: "snd (appendToEventsFile cfg w event) = Inr ()"
  by (simp add: appendToEventsFile_def io_return_def io_catch_returns logError_returns)

lemma sendEvent_returns: "snd (sendEvent opts w event) = Inr ()"
  by (simp add: sendEvent_def io_return_def io_catch_returns logDebug_returns)

text \<open>
  C2. Whatever the outside world does during a delivery (the destination unreachable, a
  response with any status, the abort signal firing on a destination that hangs, the file
  unwritable, even a payload that cannot be serialized), the network send and the file
  append of the adapter, the send of the simple integration, and the delivery built from
  them resolve normally: no error reaches the caller. The 2000 ms bound itself is not
  part of this model; a destination that hangs is the rejection the abort signal causes.
\<close>

theorem dispatch_never_throws:
  fixes cfg :: VibecraftAdapterConfig and opts :: VibecraftIntegrationOptions
  shows "snd (sendToVibecraft cfg w event) = Inr ()
       \<and> snd (appendToEventsFile cfg w event) = Inr ()
       \<and> snd (dispatch cfg w event) = Inr ()
       \<and> snd (sendEvent opts w event) = Inr ()
       \<and> snd (dispatchSimple opts w event) = Inr ()"
  by (simp add: sendToVibecraft_returns appendToEventsFile_returns sendEvent_returns
        dispatch_def dispatchSimple_def io_catch_returns io_bind_returns io_return_def)

text \<open>
  The destination down and the file unwritable; a response of 500; a destination that
  hangs.
\<close>

theorem dispatch_never_throws_witness:
  "snd (dispatch (sample_config\<lparr>eventsFilePath := ''/ro/events.jsonl''\<rparr>) world_down
          sample_notification) = Inr ()
   \<and> snd (dispatch sample_config world_500 sample_notification) = Inr ()
   \<and> snd (dispatchSimple sample_options world_hangs sample_notification) = Inr ()"
  using dispatch_never_throws
          [of "sample_config\<lparr>eventsFilePath := ''/ro/events.jsonl''\<rparr>" world_down
              sample_notification sample_options]
        dispatch_never_throws [of sample_config world_500 sample_notification sample_options]
        dispatch_never_throws [of sample_config world_hangs sample_notification sample_options]
  by simp

text \<open>What those deliveries did: one request each, no line written, failures only logged.\<close>

lemma dispatch_effects_when_down:
  "fst (dispatch (sample_config\<lparr>eventsFilePath := ''/ro/events.jsonl''\<rparr>) world_down
          sample_notification)
     = [HttpPost ''http://localhost:4003/event'' sample_notification, ConsoleError]"
  by (simp add: dispatch_def sendToVibecraft_def appendToEventsFile_def sample_config_def
        world_down_def io_bind_def io_catch_def io_return_def io_throw_def JSON_stringify_def
        fetch_def logDebug_def logError_def import_fs_def appendFile_def)

lemma dispatch_effects_on_500:
  "fst (dispatch sample_config world_500 sample_notification)
     = [HttpPost ''http://localhost:4003/event'' sample_notification, ConsoleError]"
  by (simp add: dispatch_def sendToVibecraft_def appendToEventsFile_def sample_config_def
        world_500_def io_bind_def io_catch_def io_return_def io_throw_def JSON_stringify_def
        fetch_def logDebug_def logError_def response_ok_def response_text_def)

section \<open>Delivery when the integration is off\<close>

lemma sendToVibecraft_disabled: "\<not> enabled cfg \<Longrightarrow> sendToVibecraft cfg w event = ([], Inr ())"
  by (simp add: sendToVibecraft_def io_return_def)

lemma sendEvent_disabled: "\<not> enabled opts \<Longrightarrow> sendEvent opts w event = ([], Inr ())"
  by (simp add: sendEvent_def io_return_def)

text \<open>
  With \<open>enabled = false\<close> the simple integration does nothing at all, and the adapter makes
  no request; the adapter writes no line when no file path is configured.
\<close>

lemma dispatchSimple_disabled: "\<not> enabled opts \<Longrightarrow> fst (dispatchSimple opts w event) = []"
  by (simp add: dispatchSimple_def sendEvent_disabled io_catch_def)

lemma dispatch_disabled_no_request:
  "\<not> enabled cfg \<Longrightarrow> networkCalls (fst (dispatch cfg w event)) = 0"
  by (simp add: dispatch_def sendToVibecraft_disabled appendToEventsFile_def networkCalls_def
        io_bind_def io_catch_def io_return_def io_throw_def JSON_stringify_def import_fs_def
        appendFile_def logDebug_def logError_def)

lemma dispatch_disabled_no_path_no_effect:
  "\<not> enabled cfg \<Longrightarrow> eventsFilePath cfg = [] \<Longrightarrow> fst (dispatch cfg w event) = []"
  by (simp add: dispatch_def sendToVibecraft_disabled appendToEventsFile_def
        io_bind_def io_catch_def io_return_def)

text \<open>
  C5. A second call of \<^verbatim>\<open>setupVibecraftIntegration\<close>, with
  \<^verbatim>\<open>{ enabled: false, eventsFilePath: 'events.jsonl' }\<close>, replaces the module's configuration
  and returns at once; the listener of the first call stays subscribed. The next event is
  still transformed and delivered: \<^verbatim>\<open>sendToVibecraft\<close> tests \<^verbatim>\<open>config.enabled\<close> and makes no
  request, \<^verbatim>\<open>appendToEventsFile\<close> tests only \<^verbatim>\<open>config.eventsFilePath\<close> and appends the line.
  So with \<open>enabled = false\<close> a delivery makes zero network calls and one file write.
\<close>

theorem disabled_adapter_still_appends:
  "\<not> enabled disabled_with_file
   \<and> fst (dispatch disabled_with_file world_up sample_notification)
       = [FileAppend ''events.jsonl'' sample_notification]
   \<and> config (fst (snd (snd (setupVibecraftIntegration ''/work'' user_off_with_file
                               adapter_enabled_state)))) = disabled_with_file
   \<and> networkCalls
       (fst (deliverToAdapter
               [(world_up, sample_env, sample_event ''tool'' ''pre'' (Some ''t1'') 1000 1)]
               (snd (snd (setupVibecraftIntegration ''/work'' user_off_with_file
                            adapter_enabled_state))))) = 0
   \<and> fileWrites
       (fst (deliverToAdapter
               [(world_up, sample_env, sample_event ''tool'' ''pre'' (Some ''t1'') 1000 1)]
               (snd (snd (setupVibecraftIntegration ''/work'' user_off_with_file
                            adapter_enabled_state))))) = 1"
  by (simp add: disabled_with_file_def mergeConfig_def DEFAULT_CONFIG_def user_off_with_file_def
        user_on_def adapter_enabled_state_def initialAdapterModule_def
        setupVibecraftIntegration_def onAgentEvent_def fresh_listener_def
        adapterListener_def transformAgentEvent_def sample_event_def world_up_def
        dispatch_def sendToVibecraft_def appendToEventsFile_def
        io_bind_def io_catch_def io_return_def io_throw_def JSON_stringify_def import_fs_def
        appendFile_def logDebug_def logError_def networkCalls_def fileWrites_def Let_def)

section \<open>Teardown\<close>

lemma fold_max_bounds: "a \<le> fold max h a \<and> (\<forall>x \<in> set h. x \<le> fold max h (a::nat))"
proof (induction h arbitrary: a)
  case Nil
  show ?case by simp
next
  case (Cons y ys)
  from Cons.IH [of "max y a"] show ?case by auto
qed

lemma fresh_listener_is_new: "fresh_listener h \<notin> set h"
proof
  assume "fresh_listener h \<in> set h"
  with fold_max_bounds [of 0 h] have "fresh_listener h \<le> fold max h 0" by blast
  then show False by (simp add: fresh_listener_def)
qed

text \<open>A listener writes the correlation table and nothing else of the module.\<close>

lemma adapterListener_frame:
  "config (snd (adapterListener w env evt m)) = config m
   \<and> unsubscribeAgentEvents (snd (adapterListener w env evt m)) = unsubscribeAgentEvents m"
  by (simp add: adapterListener_def Let_def split: option.splits)

lemma emitToAdapter_frame:
  "config (snd (emitToAdapter w env evt h m)) = config m
   \<and> unsubscribeAgentEvents (snd (emitToAdapter w env evt h m)) = unsubscribeAgentEvents m"
  by (induction h arbitrary: m) (simp_all add: adapterListener_frame)

lemma deliverToAdapter_frame:
  "config (fst (snd (deliverToAdapter evs s))) = config (fst s)
   \<and> unsubscribeAgentEvents (fst (snd (deliverToAdapter evs s))) = unsubscribeAgentEvents (fst s)
   \<and> snd (snd (deliverToAdapter evs s)) = snd s"
  by (induction evs arbitrary: s) (simp_all add: emitToAdapter_frame Let_def)

lemma deliverToAdapter_no_listener: "snd (deliverToAdapter evs (m, [])) = (m, [])"
  by (induction evs) (simp_all add: Let_def)

lemma integrationListener_frame:
  "options (snd (integrationListener w env evt m)) = options m
   \<and> unsubscribe (snd (integrationListener w env evt m)) = unsubscribe m"
  by (simp add: integrationListener_def Let_def split: option.splits)

lemma emitToIntegration_frame:
  "options (snd (emitToIntegration w env evt h m)) = options m
   \<and> unsubscribe (snd (emitToIntegration w env evt h m)) = unsubscribe m"
  by (induction h arbitrary: m) (simp_all add: integrationListener_frame)

lemma deliverToIntegration_frame:
  "options (fst (snd (deliverToIntegration evs s))) = options (fst s)
   \<and> unsubscribe (fst (snd (deliverToIntegration evs s))) = unsubscribe (fst s)
   \<and> snd (snd (deliverToIntegration evs s)) = snd s"
  by (induction evs arbitrary: s) (simp_all add: emitToIntegration_frame Let_def)

lemma deliverToIntegration_no_listener: "snd (deliverToIntegration evs (m, [])) = (m, [])"
  by (induction evs) (simp_all add: Let_def)

text \<open>The cleanup closure, called in a state where the module holds the handle \<open>n\<close>.\<close>

lemma adapter_cleanup_result:
  "unsubscribeAgentEvents m = Some n \<Longrightarrow>
   snd (callAdapterTeardown CleanupTeardown (m, h)) =
     Inr (m\<lparr>unsubscribeAgentEvents := None, toolUseStartTime := Map.empty\<rparr>, removeAll n h)"
  by (simp add: io_bind_def io_return_def logDebug_def)

lemma integration_cleanup_result:
  "unsubscribe m = Some n \<Longrightarrow>
   snd (callIntegrationTeardown CleanupTeardown (m, h)) =
     Inr (m\<lparr>unsubscribe := None, toolStartTimes := Map.empty\<rparr>, removeAll n h)"
  by (simp add: io_bind_def io_return_def logDebug_def)

lemma adapter_teardown_after_setup:
  fixes s0 :: "AdapterModule \<times> host" and process_cwd :: string and u :: UserConfig
    and evs :: "(Outcomes \<times> CallEnv \<times> AgentEventPayload) list"
  defines "r \<equiv> setupVibecraftIntegration process_cwd u s0"
  defines "s2 \<equiv> snd (deliverToAdapter evs (snd (snd r)))"
  shows "\<exists>s3. snd (callAdapterTeardown (fst r) s2) = Inr s3
            \<and> snd (callAdapterTeardown (fst r) s3) = Inr s3
            \<and> (enabled (mergeConfig (DEFAULT_CONFIG process_cwd) u) \<longrightarrow>
                 toolUseStartTime (fst s3) = Map.empty
               \<and> unsubscribeAgentEvents (fst s3) = None
               \<and> snd s3 = snd s0)
            \<and> (\<not> enabled (mergeConfig (DEFAULT_CONFIG process_cwd) u) \<longrightarrow>
                 fst r = NoopTeardown \<and> s3 = s2)
            \<and> (s0 = (initialAdapterModule process_cwd, []) \<longrightarrow>
                 toolUseStartTime (fst s3) = Map.empty \<and> snd s3 = [])"
proof (cases "enabled (mergeConfig (DEFAULT_CONFIG process_cwd) u)")
  case True
  let ?n = "fresh_listener (snd s0)"
  from True have td: "fst r = CleanupTeardown"
    and h1: "snd (snd (snd r)) = snd s0 @ [?n]"
    and u1: "unsubscribeAgentEvents (fst (snd (snd r))) = Some ?n"
    by (simp_all add: r_def setupVibecraftIntegration_def onAgentEvent_def Let_def)
  from deliverToAdapter_frame [of evs "snd (snd r)"] h1 u1
  have h2: "snd s2 = snd s0 @ [?n]" and u2: "unsubscribeAgentEvents (fst s2) = Some ?n"
    by (simp_all add: s2_def)
  let ?s3 = "((fst s2)\<lparr>unsubscribeAgentEvents := None, toolUseStartTime := Map.empty\<rparr>, snd s0)"
  from adapter_cleanup_result [OF u2, of "snd s2"] h2
  have first: "snd (callAdapterTeardown (fst r) s2) = Inr ?s3"
    by (simp add: td fresh_listener_is_new)
  have second: "snd (callAdapterTeardown (fst r) ?s3) = Inr ?s3"
    by (simp add: td io_bind_def io_return_def logDebug_def)
  have "s0 = (initialAdapterModule process_cwd, []) \<longrightarrow> snd ?s3 = []" by auto
  with first second True show ?thesis by (intro exI [of _ ?s3]) simp
next
  case False
  then have td: "fst r = NoopTeardown"
    and s1: "snd (snd r) = ((fst s0)\<lparr>config := mergeConfig (DEFAULT_CONFIG process_cwd) u\<rparr>, snd s0)"
    by (simp_all add: r_def setupVibecraftIntegration_def Let_def)
  have fresh: "s0 = (initialAdapterModule process_cwd, []) \<longrightarrow>
                 toolUseStartTime (fst s2) = Map.empty \<and> snd s2 = []"
    by (auto simp: s2_def s1 deliverToAdapter_no_listener initialAdapterModule_def)
  from td False fresh show ?thesis
    by (intro exI [of _ s2]) (simp add: io_return_def)
qed

lemma integration_teardown_after_enable:
  fixes s0 :: "IntegrationModule \<times> host" and process_cwd :: string and u :: UserConfig
    and evs :: "(Outcomes \<times> CallEnv \<times> AgentEventPayload) list"
    and w :: Outcomes and env :: CallEnv
  defines "r \<equiv> enableVibecraft process_cwd w env u s0"
  defines "s2 \<equiv> snd (deliverToIntegration evs (snd (snd r)))"
  shows "\<exists>s3. snd (callIntegrationTeardown (fst r) s2) = Inr s3
            \<and> snd (callIntegrationTeardown (fst r) s3) = Inr s3
            \<and> (enabled (mergeOptions (DEFAULT_OPTIONS process_cwd) u) \<longrightarrow>
                 toolStartTimes (fst s3) = Map.empty
               \<and> unsubscribe (fst s3) = None
               \<and> snd s3 = snd s0)
            \<and> (\<not> enabled (mergeOptions (DEFAULT_OPTIONS process_cwd) u) \<longrightarrow>
                 fst r = NoopTeardown \<and> s3 = s2)
            \<and> (s0 = (initialIntegrationModule process_cwd, []) \<longrightarrow>
                 toolStartTimes (fst s3) = Map.empty \<and> snd s3 = [])"
proof (cases "enabled (mergeOptions (DEFAULT_OPTIONS process_cwd) u)")
  case True
  let ?n = "fresh_listener (snd s0)"
  from True have td: "fst r = CleanupTeardown"
    and h1: "snd (snd (snd r)) = snd s0 @ [?n]"
    and u1: "unsubscribe (fst (snd (snd r))) = Some ?n"
    by (simp_all add: r_def enableVibecraft_def onAgentEvent_def Let_def)
  from deliverToIntegration_frame [of evs "snd (snd r)"] h1 u1
  have h2: "snd s2 = snd s0 @ [?n]" and u2: "unsubscribe (fst s2) = Some ?n"
    by (simp_all add: s2_def)
  let ?s3 = "((fst s2)\<lparr>unsubscribe := None, toolStartTimes := Map.empty\<rparr>, snd s0)"
  from integration_cleanup_result [OF u2, of "snd s2"] h2
  have first: "snd (callIntegrationTeardown (fst r) s2) = Inr ?s3"
    by (simp add: td fresh_listener_is_new)
  have second: "snd (callIntegrationTeardown (fst r) ?s3) = Inr ?s3"
    by (simp add: td io_bind_def io_return_def logDebug_def)
  have "s0 = (initialIntegrationModule process_cwd, []) \<longrightarrow> snd ?s3 = []" by auto
  with first second True show ?thesis by (intro exI [of _ ?s3]) simp
next
  case False
  then have td: "fst r = NoopTeardown"
    and s1: "snd (snd r) = ((fst s0)\<lparr>options := mergeOptions (DEFAULT_OPTIONS process_cwd) u\<rparr>, snd s0)"
    by (simp_all add: r_def enableVibecraft_def Let_def)
  have fresh: "s0 = (initialIntegrationModule process_cwd, []) \<longrightarrow>
                 toolStartTimes (fst s2) = Map.empty \<and> snd s2 = []"
    by (auto simp: s2_def s1 deliverToIntegration_no_listener initialIntegrationModule_def)
  from td False fresh show ?thesis
    by (intro exI [of _ s2]) (simp add: io_return_def)
qed
text \<open>
  The function a setup returned, called in any state of the module and the host, whatever
  happened since the setup: it returns, a second call changes nothing more, and the cleanup
  closure leaves the table empty and the module without a handle; the subscription it
  cancels is the one whose handle the module holds when it is called.
\<close>

lemma adapter_teardown_any_state:
  fixes s :: "AdapterModule \<times> host"
  shows "\<exists>s3. snd (callAdapterTeardown (fst (setupVibecraftIntegration process_cwd u s0)) s)
                 = Inr s3
            \<and> snd (callAdapterTeardown (fst (setupVibecraftIntegration process_cwd u s0)) s3)
                 = Inr s3
            \<and> (enabled (mergeConfig (DEFAULT_CONFIG process_cwd) u) \<longrightarrow>
                 toolUseStartTime (fst s3) = Map.empty
               \<and> unsubscribeAgentEvents (fst s3) = None
               \<and> snd s3 = (case unsubscribeAgentEvents (fst s) of
                              None \<Rightarrow> snd s
                            | Some n \<Rightarrow> removeAll n (snd s)))
            \<and> (\<not> enabled (mergeConfig (DEFAULT_CONFIG process_cwd) u) \<longrightarrow> s3 = s)"
proof (cases "enabled (mergeConfig (DEFAULT_CONFIG process_cwd) u)")
  case True
  then have td: "fst (setupVibecraftIntegration process_cwd u s0) = CleanupTeardown"
    by (simp add: setupVibecraftIntegration_def Let_def)
  let ?h = "case unsubscribeAgentEvents (fst s) of None \<Rightarrow> snd s | Some n \<Rightarrow> removeAll n (snd s)"
  let ?s3 = "((fst s)\<lparr>unsubscribeAgentEvents := None, toolUseStartTime := Map.empty\<rparr>, ?h)"
  have first: "snd (callAdapterTeardown CleanupTeardown s) = Inr ?s3"
    by (cases "unsubscribeAgentEvents (fst s)")
       (simp_all add: io_bind_def io_return_def logDebug_def)
  have second: "snd (callAdapterTeardown CleanupTeardown ?s3) = Inr ?s3"
    by (simp add: io_bind_def io_return_def logDebug_def)
  from first second True show ?thesis unfolding td by (intro exI [of _ ?s3]) simp
next
  case False
  then have td: "fst (setupVibecraftIntegration process_cwd u s0) = NoopTeardown"
    by (simp add: setupVibecraftIntegration_def Let_def)
  from False show ?thesis unfolding td by (intro exI [of _ s]) (simp add: io_return_def)
qed

lemma integration_teardown_any_state:
  fixes s :: "IntegrationModule \<times> host"
  shows "\<exists>s3. snd (callIntegrationTeardown (fst (enableVibecraft process_cwd w env u s0)) s)
                 = Inr s3
            \<and> snd (callIntegrationTeardown (fst (enableVibecraft process_cwd w env u s0)) s3)
                 = Inr s3
            \<and> (enabled (mergeOptions (DEFAULT_OPTIONS process_cwd) u) \<longrightarrow>
                 toolStartTimes (fst s3) = Map.empty
               \<and> unsubscribe (fst s3) = None
               \<and> snd s3 = (case unsubscribe (fst s) of
                              None \<Rightarrow> snd s
                            | Some n \<Rightarrow> removeAll n (snd s)))
            \<and> (\<not> enabled (mergeOptions (DEFAULT_OPTIONS process_cwd) u) \<longrightarrow> s3 = s)"
proof (cases "enabled (mergeOptions (DEFAULT_OPTIONS process_cwd) u)")
  case True
  then have td: "fst (enableVibecraft process_cwd w env u s0) = CleanupTeardown"
    by (simp add: enableVibecraft_def Let_def)
  let ?h = "case unsubscribe (fst s) of None \<Rightarrow> snd s | Some n \<Rightarrow> removeAll n (snd s)"
  let ?s3 = "((fst s)\<lparr>unsubscribe := None, toolStartTimes := Map.empty\<rparr>, ?h)"
  have first: "snd (callIntegrationTeardown CleanupTeardown s) = Inr ?s3"
    by (cases "unsubscribe (fst s)")
       (simp_all add: io_bind_def io_return_def logDebug_def)
  have second: "snd (callIntegrationTeardown CleanupTeardown ?s3) = Inr ?s3"
    by (simp add: io_bind_def io_return_def logDebug_def)
  from first second True show ?thesis unfolding td by (intro exI [of _ ?s3]) simp
next
  case False
  then have td: "fst (enableVibecraft process_cwd w env u s0) = NoopTeardown"
    by (simp add: enableVibecraft_def Let_def)
  from False show ?thesis unfolding td by (intro exI [of _ s]) (simp add: io_return_def)
qed

text \<open>
  Why the cancelled subscription is the enable call's own only when no other setup was
  made in between: after a second setup with \<^verbatim>\<open>{ enabled: true }\<close> the module holds the
  handle of the second subscription, and the function the first setup returned cancels
  that one; listener 1, which the first setup subscribed, stays.
\<close>

lemma teardown_after_second_setup:
  "snd (callAdapterTeardown
          (fst (setupVibecraftIntegration ''/work'' user_on (initialAdapterModule ''/work'', [])))
          (snd (snd (setupVibecraftIntegration ''/work'' user_on adapter_enabled_state))))
     = Inr (\<lparr>config = mergeConfig (DEFAULT_CONFIG ''/work'') user_on,
             unsubscribeAgentEvents = None, toolUseStartTime = Map.empty\<rparr>, [1])"
  by (simp add: adapter_enabled_state_def initialAdapterModule_def
        setupVibecraftIntegration_def mergeConfig_def DEFAULT_CONFIG_def user_on_def
        onAgentEvent_def fresh_listener_def io_bind_def io_return_def logDebug_def Let_def)

text \<open>
  C7, as the specification states it: after the teardown function returned by enable has
  been called (twice), the correlation table is empty and the subscription to the host
  event stream is cancelled. It fails for an enable call with \<open>enabled = false\<close> made while
  an earlier setup is still active: that call returns \<^verbatim>\<open>() => {}\<close>, and after calling it
  the start time of invocation \<open>t1\<close> is still in the table and listener 1 is still
  subscribed.
\<close>

theorem teardown_counterexample:
  "fst adapter_second_setup = NoopTeardown
   \<and> snd (callAdapterTeardown (fst adapter_second_setup) (snd (snd adapter_second_setup)))
       = Inr (snd (snd adapter_second_setup))
   \<and> toolUseStartTime (fst (snd (snd adapter_second_setup))) ''t1'' = Some 1000
   \<and> toolUseStartTime (fst (snd (snd adapter_second_setup))) \<noteq> Map.empty
   \<and> snd (snd (snd adapter_second_setup)) = [1]"
proof -
  have busy: "adapter_busy_state =
                (\<lparr>config = mergeConfig (DEFAULT_CONFIG ''/work'') user_on,
                  unsubscribeAgentEvents = Some 1,
                  toolUseStartTime = [''t1'' \<mapsto> 1000]\<rparr>, [1])"
    by (simp add: adapter_busy_state_def adapter_enabled_state_def initialAdapterModule_def
          setupVibecraftIntegration_def mergeConfig_def DEFAULT_CONFIG_def user_on_def
          onAgentEvent_def fresh_listener_def adapterListener_def transformAgentEvent_def
          sample_event_def Let_def)
  have off: "\<not> enabled (mergeConfig (DEFAULT_CONFIG ''/work'') user_off)"
    by (simp add: mergeConfig_def DEFAULT_CONFIG_def user_off_def)
  have second: "adapter_second_setup =
                  (NoopTeardown, [],
                   (\<lparr>config = mergeConfig (DEFAULT_CONFIG ''/work'') user_off,
                     unsubscribeAgentEvents = Some 1,
                     toolUseStartTime = [''t1'' \<mapsto> 1000]\<rparr>, [1]))"
    using off
    by (simp add: adapter_second_setup_def busy setupVibecraftIntegration_def Let_def
          logDebug_def io_return_def mergeConfig_def DEFAULT_CONFIG_def user_off_def)
  have "[''t1'' \<mapsto> (1000::int)] ''t1'' \<noteq> Map.empty ''t1''" by simp
  then have "[''t1'' \<mapsto> (1000::int)] \<noteq> Map.empty" by metis
  then show ?thesis by (simp add: second io_return_def)
qed

text \<open>
  C7, amended: calling the teardown function returned by enable twice in a row does not
  fail, and the second call changes nothing, in whatever state it is called. When enable
  was called with \<open>enabled = true\<close>, after teardown the correlation table is empty and the
  module holds no unsubscribe handle; the subscription teardown cancels is the one whose
  handle the module holds when it is called. Provided that no other setup or teardown
  call was made between that enable call and its teardown (only events were delivered,
  \<open>evs\<close>), this is the subscription that enable call made: the host then has the
  subscriptions it had before the call. When enable was called with \<open>enabled = false\<close>,
  the returned function is the empty function and leaves table and subscriptions as they
  are; under the same proviso they are empty and none when the module had not been set up
  before. This holds for the adapter and for the simple integration.
\<close>

theorem teardown_twice:
  assumes "ra = setupVibecraftIntegration process_cwd u sa"
    and "sa2 = snd (deliverToAdapter evs (snd (snd ra)))"
    and "ri = enableVibecraft process_cwd w env u si"
    and "si2 = snd (deliverToIntegration evs (snd (snd ri)))"
  shows "(\<exists>s3. snd (callAdapterTeardown (fst ra) sa2) = Inr s3
             \<and> snd (callAdapterTeardown (fst ra) s3) = Inr s3
             \<and> (enabled (mergeConfig (DEFAULT_CONFIG process_cwd) u) \<longrightarrow>
                  toolUseStartTime (fst s3) = Map.empty
                \<and> unsubscribeAgentEvents (fst s3) = None
                \<and> snd s3 = snd sa)
             \<and> (\<not> enabled (mergeConfig (DEFAULT_CONFIG process_cwd) u) \<longrightarrow>
                  fst ra = NoopTeardown \<and> s3 = sa2)
             \<and> (sa = (initialAdapterModule process_cwd, []) \<longrightarrow>
                  toolUseStartTime (fst s3) = Map.empty \<and> snd s3 = []))
       \<and> (\<exists>s3. snd (callIntegrationTeardown (fst ri) si2) = Inr s3
             \<and> snd (callIntegrationTeardown (fst ri) s3) = Inr s3
             \<and> (enabled (mergeOptions (DEFAULT_OPTIONS process_cwd) u) \<longrightarrow>
                  toolStartTimes (fst s3) = Map.empty
                \<and> unsubscribe (fst s3) = None
                \<and> snd s3 = snd si)
             \<and> (\<not> enabled (mergeOptions (DEFAULT_OPTIONS process_cwd) u) \<longrightarrow>
                  fst ri = NoopTeardown \<and> s3 = si2)
             \<and> (si = (initialIntegrationModule process_cwd, []) \<longrightarrow>
                  toolStartTimes (fst s3) = Map.empty \<and> snd s3 = []))
       \<and> (\<forall>s. \<exists>s3. snd (callAdapterTeardown (fst ra) s) = Inr s3
             \<and> snd (callAdapterTeardown (fst ra) s3) = Inr s3
             \<and> (enabled (mergeConfig (DEFAULT_CONFIG process_cwd) u) \<longrightarrow>
                  toolUseStartTime (fst s3) = Map.empty
                \<and> unsubscribeAgentEvents (fst s3) = None
                \<and> snd s3 = (case unsubscribeAgentEvents (fst s) of
                               None \<Rightarrow> snd s
                             | Some n \<Rightarrow> removeAll n (snd s)))
             \<and> (\<not> enabled (mergeConfig (DEFAULT_CONFIG process_cwd) u) \<longrightarrow> s3 = s))
       \<and> (\<forall>s. \<exists>s3. snd (callIntegrationTeardown (fst ri) s) = Inr s3
             \<and> snd (callIntegrationTeardown (fst ri) s3) = Inr s3
             \<and> (enabled (mergeOptions (DEFAULT_OPTIONS process_cwd) u) \<longrightarrow>
                  toolStartTimes (fst s3) = Map.empty
                \<and> unsubscribe (fst s3) = None
                \<and> snd s3 = (case unsubscribe (fst s) of
                               None \<Rightarrow> snd s
                             | Some n \<Rightarrow> removeAll n (snd s)))
             \<and> (\<not> enabled (mergeOptions (DEFAULT_OPTIONS process_cwd) u) \<longrightarrow> s3 = s))"
proof (intro conjI allI)
  show "\<exists>s3. snd (callAdapterTeardown (fst ra) sa2) = Inr s3
            \<and> snd (callAdapterTeardown (fst ra) s3) = Inr s3
            \<and> (enabled (mergeConfig (DEFAULT_CONFIG process_cwd) u) \<longrightarrow>
                 toolUseStartTime (fst s3) = Map.empty
               \<and> unsubscribeAgentEvents (fst s3) = None
               \<and> snd s3 = snd sa)
            \<and> (\<not> enabled (mergeConfig (DEFAULT_CONFIG process_cwd) u) \<longrightarrow>
                 fst ra = NoopTeardown \<and> s3 = sa2)
            \<and> (sa = (initialAdapterModule process_cwd, []) \<longrightarrow>
                 toolUseStartTime (fst s3) = Map.empty \<and> snd s3 = [])"
    unfolding assms by (rule adapter_teardown_after_setup)
next
  show "\<exists>s3. snd (callIntegrationTeardown (fst ri) si2) = Inr s3
            \<and> snd (callIntegrationTeardown (fst ri) s3) = Inr s3
            \<and> (enabled (mergeOptions (DEFAULT_OPTIONS process_cwd) u) \<longrightarrow>
                 toolStartTimes (fst s3) = Map.empty
               \<and> unsubscribe (fst s3) = None
               \<and> snd s3 = snd si)
            \<and> (\<not> enabled (mergeOptions (DEFAULT_OPTIONS process_cwd) u) \<longrightarrow>
                 fst ri = NoopTeardown \<and> s3 = si2)
            \<and> (si = (initialIntegrationModule process_cwd, []) \<longrightarrow>
                 toolStartTimes (fst s3) = Map.empty \<and> snd s3 = [])"
    unfolding assms by (rule integration_teardown_after_enable)
next
  fix s
  show "\<exists>s3. snd (callAdapterTeardown (fst ra) s) = Inr s3
            \<and> snd (callAdapterTeardown (fst ra) s3) = Inr s3
            \<and> (enabled (mergeConfig (DEFAULT_CONFIG process_cwd) u) \<longrightarrow>
                 toolUseStartTime (fst s3) = Map.empty
               \<and> unsubscribeAgentEvents (fst s3) = None
               \<and> snd s3 = (case unsubscribeAgentEvents (fst s) of
                              None \<Rightarrow> snd s
                            | Some n \<Rightarrow> removeAll n (snd s)))
            \<and> (\<not> enabled (mergeConfig (DEFAULT_CONFIG process_cwd) u) \<longrightarrow> s3 = s)"
    unfolding assms by (rule adapter_teardown_any_state)
next
  fix s
  show "\<exists>s3. snd (callIntegrationTeardown (fst ri) s) = Inr s3
            \<and> snd (callIntegrationTeardown (fst ri) s3) = Inr s3
            \<and> (enabled (mergeOptions (DEFAULT_OPTIONS process_cwd) u) \<longrightarrow>
                 toolStartTimes (fst s3) = Map.empty
               \<and> unsubscribe (fst s3) = None
               \<and> snd s3 = (case unsubscribe (fst s) of
                              None \<Rightarrow> snd s
                            | Some n \<Rightarrow> removeAll n (snd s)))
            \<and> (\<not> enabled (mergeOptions (DEFAULT_OPTIONS process_cwd) u) \<longrightarrow> s3 = s)"
    unfolding assms by (rule integration_teardown_any_state)
qed

text \<open>
  A setup with \<^verbatim>\<open>{ enabled: true }\<close> in a freshly loaded module, a pre-phase tool event
  that puts a start time into the table, and the teardown called twice; and a setup with
  no options (disabled) in a freshly loaded module.
\<close>

theorem teardown_twice_witness:
  "enabled (mergeConfig (DEFAULT_CONFIG ''/work'') user_on)
   \<and> toolUseStartTime (fst adapter_busy_state) ''t1'' = Some 1000
   \<and> (\<exists>s3. snd (callAdapterTeardown
                   (fst (setupVibecraftIntegration ''/work'' user_on
                           (initialAdapterModule ''/work'', [])))
                   adapter_busy_state) = Inr s3
          \<and> snd (callAdapterTeardown
                   (fst (setupVibecraftIntegration ''/work'' user_on
                           (initialAdapterModule ''/work'', [])))
                   s3) = Inr s3
          \<and> toolUseStartTime (fst s3) = Map.empty
          \<and> unsubscribeAgentEvents (fst s3) = None
          \<and> snd s3 = [])
   \<and> \<not> enabled (mergeOptions (DEFAULT_OPTIONS ''/work'') user_off)
   \<and> (\<exists>s3. snd (callIntegrationTeardown
                   (fst (enableVibecraft ''/work'' world_up sample_env user_off
                           (initialIntegrationModule ''/work'', [])))
                   (snd (snd (enableVibecraft ''/work'' world_up sample_env user_off
                                (initialIntegrationModule ''/work'', []))))) = Inr s3
          \<and> snd (callIntegrationTeardown
                   (fst (enableVibecraft ''/work'' world_up sample_env user_off
                           (initialIntegrationModule ''/work'', [])))
                   s3) = Inr s3
          \<and> toolStartTimes (fst s3) = Map.empty
          \<and> snd s3 = [])"
proof -
  let ?ev = "[(world_up, sample_env, sample_event ''tool'' ''pre'' (Some ''t1'') 1000 1)]"
  let ?sa = "(initialAdapterModule ''/work'', [])"
  let ?si = "(initialIntegrationModule ''/work'', [])"
  have on: "enabled (mergeConfig (DEFAULT_CONFIG ''/work'') user_on)"
    by (simp add: mergeConfig_def DEFAULT_CONFIG_def user_on_def)
  have off: "\<not> enabled (mergeOptions (DEFAULT_OPTIONS ''/work'') user_off)"
    by (simp add: mergeOptions_def DEFAULT_OPTIONS_def user_off_def)
  have busy: "adapter_busy_state
                = snd (deliverToAdapter ?ev
                         (snd (snd (setupVibecraftIntegration ''/work'' user_on ?sa))))"
    by (simp only: adapter_busy_state_def adapter_enabled_state_def)
  have entry: "toolUseStartTime (fst adapter_busy_state) ''t1'' = Some 1000"
    by (simp add: adapter_busy_state_def adapter_enabled_state_def initialAdapterModule_def
          setupVibecraftIntegration_def mergeConfig_def DEFAULT_CONFIG_def user_on_def
          onAgentEvent_def fresh_listener_def adapterListener_def transformAgentEvent_def
          sample_event_def Let_def)
  have idle: "snd (snd (enableVibecraft ''/work'' world_up sample_env user_off ?si))
                = snd (deliverToIntegration []
                         (snd (snd (enableVibecraft ''/work'' world_up sample_env user_off ?si))))"
    by simp
  note t1 = teardown_twice
         [where process_cwd = "''/work''" and u = user_on and sa = "?sa" and evs = "?ev"
            and w = world_up and env = sample_env and si = "?si", OF refl busy refl refl]
  from t1 [THEN conjunct1] on
  have a: "\<exists>s3. snd (callAdapterTeardown
                        (fst (setupVibecraftIntegration ''/work'' user_on ?sa))
                        adapter_busy_state) = Inr s3
              \<and> snd (callAdapterTeardown
                        (fst (setupVibecraftIntegration ''/work'' user_on ?sa)) s3) = Inr s3
              \<and> toolUseStartTime (fst s3) = Map.empty
              \<and> unsubscribeAgentEvents (fst s3) = None
              \<and> snd s3 = []"
    by auto
  note t2 = teardown_twice
         [where process_cwd = "''/work''" and u = user_off and sa = "?sa" and evs = "[]"
            and w = world_up and env = sample_env and si = "?si", OF refl refl refl idle]
  from t2 [THEN conjunct2, THEN conjunct1] off
  have b: "\<exists>s3. snd (callIntegrationTeardown
                        (fst (enableVibecraft ''/work'' world_up sample_env user_off ?si))
                        (snd (snd (enableVibecraft ''/work'' world_up sample_env user_off ?si))))
                    = Inr s3
              \<and> snd (callIntegrationTeardown
                        (fst (enableVibecraft ''/work'' world_up sample_env user_off ?si)) s3)
                    = Inr s3
              \<and> toolStartTimes (fst s3) = Map.empty
              \<and> snd s3 = []"
    by auto
  from on entry a off b show ?thesis by blast
qed

end
